theory Spec2Isabelle
  imports Complex_Main "HOL-Library.Sublist" "HOL-Library.Product_Lexorder"
begin

section \<open>Text primitives of the Python runtime\<close>

text \<open>
  Texts are modelled as ASCII strings. \<open>is_space\<close> is the ASCII part of Python's
  whitespace class, the one \<open>str.strip\<close>, \<open>str.split\<close> and the regular expression
  class \<open>\s\<close> share: tab, line feed, vertical tab, form feed, carriage return, the four
  separators 28 to 31, and the blank.
\<close>

definition is_space :: "char \<Rightarrow> bool" where
  "is_space c = (let n = (of_char c :: nat) in (9 \<le> n \<and> n \<le> 13) \<or> (28 \<le> n \<and> n \<le> 32))"

text \<open>\<open>str.strip()\<close>: whitespace removed at both ends.\<close>

definition strip :: "string \<Rightarrow> string" where
  "strip s = rev (dropWhile is_space (rev (dropWhile is_space s)))"

text \<open>
  A slice bound of Python: a negative bound counts from the end, and every bound is cut
  to the range of the sequence.
\<close>

definition slice_bound :: "nat \<Rightarrow> int \<Rightarrow> nat" where
  "slice_bound n i = (if i < 0 then nat (max (i + int n) 0) else min (nat i) n)"

text \<open>\<open>xs[a:b]\<close>\<close>

definition py_slice :: "'a list \<Rightarrow> int \<Rightarrow> int \<Rightarrow> 'a list" where
  "py_slice xs a b =
     (let lo = slice_bound (length xs) a; hi = slice_bound (length xs) b
      in take (hi - lo) (drop lo xs))"

section \<open>Chunker: \<open>chunk_text\<close> of \<open>core/utils.py\<close>\<close>

text \<open>
  One pass through the body of the \<open>while\<close> loop, entered with \<open>start < text_length\<close>:
  the window is cut and trimmed, kept when it is not empty, and the loop either breaks
  (\<open>Inr\<close>, with the chunks collected) or goes on with the next start position (\<open>Inl\<close>).
\<close>

definition chunk_step ::
  "string \<Rightarrow> int \<Rightarrow> int \<Rightarrow> int \<times> string list \<Rightarrow> (int \<times> string list) + string list" where
  "chunk_step text chunk_size overlap st =
     (case st of (start, chunks) \<Rightarrow>
        let text_length = int (length text);
            endp = min (start + chunk_size) text_length;
            chunk = strip (py_slice text start endp);
            chunks' = (if chunk \<noteq> [] then chunks @ [chunk] else chunks)
        in if endp \<ge> text_length then Inr chunks'
           else Inl (max (start + 1) (endp - overlap), chunks'))"

text \<open>
  The loop itself. It is defined without any termination argument: \<open>None\<close> stands for
  a loop that never returns, so that termination is a theorem and not a side condition
  of the definition.
\<close>

partial_function (option) chunk_loop ::
  "string \<Rightarrow> int \<Rightarrow> int \<Rightarrow> int \<times> string list \<Rightarrow> string list option" where
  "chunk_loop text chunk_size overlap st =
     (if fst st < int (length text)
      then (case chunk_step text chunk_size overlap st of
              Inr chunks \<Rightarrow> Some chunks
            | Inl st' \<Rightarrow> chunk_loop text chunk_size overlap st')
      else Some (snd st))"

text \<open>
  \<open>chunk_text\<close>. The two optional arguments fall back to the configured \<open>CHUNK_SIZE\<close>
  and \<open>CHUNK_OVERLAP\<close>, which are settings of the deployment and parameters here.
\<close>

definition chunk_text ::
  "int \<Rightarrow> int \<Rightarrow> string \<Rightarrow> int option \<Rightarrow> int option \<Rightarrow> string list option" where
  "chunk_text CHUNK_SIZE CHUNK_OVERLAP text chunk_size overlap =
     (let chunk_size = (case chunk_size of None \<Rightarrow> CHUNK_SIZE | Some c \<Rightarrow> c);
          overlap = (case overlap of None \<Rightarrow> CHUNK_OVERLAP | Some v \<Rightarrow> v)
      in if text = [] \<or> strip text = [] then Some []
         else let overlap = (if overlap \<ge> chunk_size then chunk_size div 2 else overlap)
              in chunk_loop text chunk_size overlap (0, []))"

section \<open>Lexical matcher: \<open>core/mongodb_utils.py\<close>\<close>

subsection \<open>Normalisation and tokens\<close>

text \<open>\<open>str.lower()\<close> on ASCII text.\<close>

definition lower_char :: "char \<Rightarrow> char" where
  "lower_char c =
     (let n = (of_char c :: nat) in if 65 \<le> n \<and> n \<le> 90 then char_of (n + 32) else c)"

definition lower :: "string \<Rightarrow> string" where
  "lower s = map lower_char s"

text \<open>The class \<open>\w\<close> on ASCII text: letters, digits and the underscore.\<close>

definition is_word_char :: "char \<Rightarrow> bool" where
  "is_word_char c =
     (let n = (of_char c :: nat)
      in (48 \<le> n \<and> n \<le> 57) \<or> (65 \<le> n \<and> n \<le> 90) \<or> (97 \<le> n \<and> n \<le> 122) \<or> n = 95)"

text \<open>\<open>re.sub(r'[^\w\s]', ' ', s)\<close>: every other character becomes a blank.\<close>

definition sub_special :: "string \<Rightarrow> string" where
  "sub_special s = map (\<lambda>c. if is_word_char c \<or> is_space c then c else CHR '' '') s"

text \<open>\<open>re.sub(r'\s+', ' ', s)\<close>: every run of whitespace becomes one blank.\<close>

fun collapse_ws :: "bool \<Rightarrow> string \<Rightarrow> string" where
  "collapse_ws in_run [] = []"
| "collapse_ws in_run (c # cs) =
     (if is_space c then (if in_run then collapse_ws True cs else CHR '' '' # collapse_ws True cs)
      else c # collapse_ws False cs)"

text \<open>
  \<open>str.split()\<close> without arguments: the maximal runs of characters that are not
  whitespace. The first argument is the word being read.
\<close>

fun split_acc :: "string \<Rightarrow> string \<Rightarrow> string list" where
  "split_acc w [] = (if w = [] then [] else [w])"
| "split_acc w (c # cs) =
     (if is_space c then (if w = [] then split_acc [] cs else w # split_acc [] cs)
      else split_acc (w @ [c]) cs)"

definition py_split :: "string \<Rightarrow> string list" where
  "py_split s = split_acc [] s"

text \<open>\<open>_normalize_text\<close>\<close>

definition normalize_text :: "string \<Rightarrow> string" where
  "normalize_text text =
     (let normalized = sub_special (lower text);
          normalized = strip (collapse_ws False normalized)
      in normalized)"

text \<open>The stop words of \<open>_extract_keywords\<close>, as the set literal lists them.\<close>

definition stop_words :: "string list" where
  "stop_words =
    [''the'', ''a'', ''an'', ''and'', ''or'', ''but'', ''in'', ''on'', ''at'', ''to'', ''for'',
     ''of'', ''with'', ''by'', ''is'', ''are'', ''was'', ''were'', ''be'', ''been'', ''have'',
     ''has'', ''had'', ''do'', ''does'', ''did'', ''will'', ''would'', ''could'', ''should'',
     ''may'', ''might'', ''can'', ''what'', ''how'', ''when'', ''where'', ''why'', ''who'',
     ''this'', ''that'', ''these'', ''those'', ''i'', ''you'', ''he'', ''she'', ''it'', ''we'',
     ''they'', ''me'', ''him'', ''her'', ''us'', ''them'', ''my'', ''your'', ''his'', ''her'',
     ''its'', ''our'', ''their'', ''am'', ''not'', ''so'', ''if'', ''then'', ''than'', ''as'',
     ''up'', ''down'', ''out'', ''off'', ''over'', ''under'', ''again'', ''further'', ''then'',
     ''once'', ''here'', ''there'', ''when'', ''where'', ''why'', ''how'', ''all'', ''any'',
     ''both'', ''each'', ''few'', ''more'', ''most'', ''other'', ''some'', ''such'', ''no'',
     ''nor'', ''only'', ''own'', ''same'', ''so'', ''than'', ''too'', ''very'', ''just'',
     ''now'', ''get'', ''got'', ''go'', ''goes'', ''went'', ''come'', ''came'', ''see'',
     ''saw'', ''know'', ''knew'', ''think'', ''thought'', ''take'', ''took'', ''give'',
     ''gave'', ''make'', ''made'', ''find'', ''found'', ''tell'', ''told'', ''ask'', ''asked'',
     ''work'', ''worked'', ''seem'', ''seemed'', ''feel'', ''felt'', ''try'', ''tried'',
     ''leave'', ''left'', ''call'', ''called'']"

text \<open>
  \<open>_extract_keywords\<close>. \<open>list(set(words))[:15]\<close> takes the first fifteen words in the
  iteration order of a Python set, which the language leaves open: \<open>set_order\<close>, a
  parameter, lists the distinct words in that order.
\<close>

definition extract_keywords :: "(string list \<Rightarrow> string list) \<Rightarrow> string \<Rightarrow> string list" where
  "extract_keywords set_order text =
     (let clean_text = sub_special (lower text);
          words = filter (\<lambda>word. word \<notin> set stop_words \<and> length word > 2) (py_split clean_text)
      in take 15 (set_order (remdups words)))"

subsection \<open>\<open>_calculate_text_similarity\<close>\<close>

text \<open>
  Similarity scores are Python floats; they are modelled as real numbers, so rounding
  is not part of the model. The sets of words are finite sets of strings; \<open>a in b\<close> on
  strings is \<open>sublist a b\<close>.
\<close>

text \<open>Method 1: Jaccard similarity (word overlap).\<close>

definition jaccard_similarity :: "string set \<Rightarrow> string set \<Rightarrow> real" where
  "jaccard_similarity words1 words2 =
     (let intersection = words1 \<inter> words2;
          union = words1 \<union> words2
      in if union \<noteq> {} then real (card intersection) / real (card union) else 0)"

text \<open>
  Method 2: substring matching. The inner loop breaks at the first match, so each word
  of \<open>words1\<close> counts at most once.
\<close>

definition substring_matches :: "string set \<Rightarrow> string set \<Rightarrow> nat" where
  "substring_matches words1 words2 =
     card {word1 \<in> words1. \<exists>word2 \<in> words2.
             length word1 > 3 \<and> length word2 > 3 \<and> (sublist word1 word2 \<or> sublist word2 word1)}"

definition substring_similarity :: "string set \<Rightarrow> string set \<Rightarrow> real" where
  "substring_similarity words1 words2 =
     (if max (card words1) (card words2) > 0
      then real (substring_matches words1 words2) / real (max (card words1) (card words2))
      else 0)"

text \<open>
  Method 3: phrase matching, for texts of more than one word each. \<open>phrases1\<close> are the
  windows of \<open>text1\<close> that are as long as \<open>text2\<close>, and \<open>phrases2\<close> the other way round.
\<close>

definition phrases :: "string \<Rightarrow> string \<Rightarrow> string list" where
  "phrases text1 text2 =
     map (\<lambda>i. py_slice text1 (int i) (int i + int (length text2)))
       [0 ..< nat (int (length text1) - int (length text2) + 1)]"

definition phrase_similarity :: "string \<Rightarrow> string \<Rightarrow> real" where
  "phrase_similarity text1 text2 =
     (if length (py_split text1) > 1 \<and> length (py_split text2) > 1 then
        let phrases1 = phrases text1 text2;
            phrases2 = phrases text2 text1
        in if sublist text1 text2 \<or> sublist text2 text1 then 0.5
           else if list_ex (\<lambda>phrase. length phrase > 10 \<and> sublist phrase text2) phrases1 then 0.3
           else if list_ex (\<lambda>phrase. length phrase > 10 \<and> sublist phrase text1) phrases2 then 0.3
           else 0
      else 0)"

definition calculate_text_similarity :: "string \<Rightarrow> string \<Rightarrow> real" where
  "calculate_text_similarity text1 text2 =
     (if text1 = [] \<or> text2 = [] then 0
      else
        let words1 = set (py_split text1);
            words2 = set (py_split text2)
        in if words1 = {} \<or> words2 = {} then 0
           else
             let final_similarity =
                   jaccard_similarity words1 words2 * 0.6 +
                   substring_similarity words1 words2 * 0.3 +
                   phrase_similarity text1 text2 * 0.1
             in min final_similarity 1)"

subsection \<open>The score as the specification words it\<close>

text \<open>
  The three components and the final score of section 4.4 of the specification, written
  from its words and over normalized texts: the Jaccard overlap of the token sets; the
  share of tokens of the first set, longer than three characters, that contain or are
  contained in such a token of the second set, over the size of the larger set; and the
  phrase bonus, 0.5 if one text is wholly contained in the other, else 0.3 if a substring
  of more than ten characters of the shorter text appears in the longer, else 0. A
  quotient over an empty set is taken as zero.
\<close>

definition tokens :: "string \<Rightarrow> string set" where
  "tokens text = set (py_split text)"

definition jaccard_overlap :: "string set \<Rightarrow> string set \<Rightarrow> real" where
  "jaccard_overlap A B =
     (if A \<union> B = {} then 0 else real (card (A \<inter> B)) / real (card (A \<union> B)))"

definition substring_ratio :: "string set \<Rightarrow> string set \<Rightarrow> real" where
  "substring_ratio A B =
     (if max (card A) (card B) = 0 then 0
      else real (card {a \<in> A. length a > 3 \<and>
                        (\<exists>b \<in> B. length b > 3 \<and> (sublist a b \<or> sublist b a))})
           / real (max (card A) (card B)))"

definition long_common_substring :: "string \<Rightarrow> string \<Rightarrow> bool" where
  "long_common_substring text1 text2 =
     (let shorter = (if length text1 \<le> length text2 then text1 else text2);
          longer = (if length text1 \<le> length text2 then text2 else text1)
      in list_ex (\<lambda>sub. length sub > 10 \<and> sublist sub longer) (sublists shorter))"

definition phrase_containment_bonus :: "string \<Rightarrow> string \<Rightarrow> real" where
  "phrase_containment_bonus text1 text2 =
     (if sublist text1 text2 \<or> sublist text2 text1 then 0.5
      else if long_common_substring text1 text2 then 0.3
      else 0)"

definition lexical_score_spec :: "string \<Rightarrow> string \<Rightarrow> real" where
  "lexical_score_spec text1 text2 =
     min (0.6 * jaccard_overlap (tokens text1) (tokens text2)
          + 0.3 * substring_ratio (tokens text1) (tokens text2)
          + 0.1 * phrase_containment_bonus text1 text2) 1"

section \<open>Contribution store and candidate search\<close>

text \<open>
  A \<open>UserContribution\<close> document, with the fields the search reads. \<open>is_approved\<close> is
  a string field holding \<open>pending\<close>, \<open>approved\<close> or \<open>rejected\<close>.
\<close>

record contribution =
  contrib_id :: string
  question :: string
  answer :: string
  rating :: real
  usage_count :: int
  is_approved :: string

text \<open>
  A search result: the dictionary of \<open>to_dict()\<close> with the key \<open>similarity_score\<close>
  added by the search.
\<close>

record contrib_dict = contribution +
  similarity_score :: real

definition to_dict :: "contribution \<Rightarrow> real \<Rightarrow> contrib_dict" where
  "to_dict contrib score =
     \<lparr>contrib_id = contrib_id contrib, question = question contrib, answer = answer contrib,
      rating = rating contrib, usage_count = usage_count contrib,
      is_approved = is_approved contrib, similarity_score = score\<rparr>"

text \<open>
  The store: the collection in its natural order, and the text index if the collection
  has one. The index is a collaborator of the store, given here by the documents it
  matches for a query.
\<close>

record database =
  documents :: "contribution list"
  text_index :: "(string \<Rightarrow> contribution \<Rightarrow> bool) option"

text \<open>
  \<open>UserContribution.objects(is_approved="approved", rating__gte=min_rating)
  .order_by('-rating', '-usage_count')\<close>
\<close>

definition approved_contributions :: "contribution list \<Rightarrow> real \<Rightarrow> contribution list" where
  "approved_contributions docs min_rating =
     sort_key (\<lambda>c. (- rating c, - usage_count c))
       (filter (\<lambda>c. is_approved c = ''approved'' \<and> rating c \<ge> min_rating) docs)"

text \<open>
  The raw \<open>$text\<close> query with its filter on \<open>is_approved\<close> and \<open>rating\<close>, cut by
  \<open>.limit(n)\<close>. Without a text index the query raises: \<open>None\<close>.
\<close>

definition text_search ::
  "database \<Rightarrow> string \<Rightarrow> string list \<Rightarrow> real \<Rightarrow> int \<Rightarrow> contribution list option" where
  "text_search db query states min_rating n =
     (case text_index db of
        None \<Rightarrow> None
      | Some matches \<Rightarrow>
          Some (take (nat n)
            (filter (\<lambda>c. matches query c \<and> is_approved c \<in> set states \<and> rating c \<ge> min_rating)
               (documents db))))"

text \<open>
  The first loop over the approved contributions (question and answer similarity). The
  state is the pair of \<open>results\<close> and \<open>seen_ids\<close>.
\<close>

fun question_loop ::
  "string \<Rightarrow> int \<Rightarrow> contribution list \<Rightarrow> contrib_dict list \<times> string set \<Rightarrow>
   contrib_dict list \<times> string set" where
  "question_loop normalized_query limit [] st = st"
| "question_loop normalized_query limit (contrib # rest) (results, seen_ids) =
     (if int (length results) \<ge> limit then (results, seen_ids)
      else if contrib_id contrib \<in> seen_ids
      then question_loop normalized_query limit rest (results, seen_ids)
      else
        let question_similarity =
              calculate_text_similarity normalized_query (normalize_text (question contrib));
            answer_similarity =
              calculate_text_similarity normalized_query (normalize_text (answer contrib));
            max_similarity = max question_similarity answer_similarity
        in if max_similarity > 0.05
           then question_loop normalized_query limit rest
                  (results @ [to_dict contrib max_similarity], insert (contrib_id contrib) seen_ids)
           else question_loop normalized_query limit rest (results, seen_ids))"

text \<open>The second loop: keyword matching.\<close>

fun keyword_loop ::
  "string list \<Rightarrow> int \<Rightarrow> contribution list \<Rightarrow> contrib_dict list \<times> string set \<Rightarrow>
   contrib_dict list \<times> string set" where
  "keyword_loop query_keywords limit [] st = st"
| "keyword_loop query_keywords limit (contrib # rest) (results, seen_ids) =
     (if int (length results) \<ge> limit then (results, seen_ids)
      else if contrib_id contrib \<in> seen_ids
      then keyword_loop query_keywords limit rest (results, seen_ids)
      else
        let contrib_text = normalize_text (question contrib @ '' '' @ answer contrib);
            keyword_matches =
              length (filter (\<lambda>keyword. sublist keyword contrib_text) query_keywords)
        in if keyword_matches > 0
           then
             let keyword_similarity = real keyword_matches / real (length query_keywords)
             in if keyword_similarity > 0.05
                then keyword_loop query_keywords limit rest
                       (results @ [to_dict contrib keyword_similarity],
                        insert (contrib_id contrib) seen_ids)
                else keyword_loop query_keywords limit rest (results, seen_ids)
           else keyword_loop query_keywords limit rest (results, seen_ids))"

text \<open>The third loop: the documents the text index found, with the default score.\<close>

fun text_loop ::
  "contribution list \<Rightarrow> contrib_dict list \<times> string set \<Rightarrow> contrib_dict list \<times> string set" where
  "text_loop [] st = st"
| "text_loop (contrib # rest) (results, seen_ids) =
     (if contrib_id contrib \<notin> seen_ids
      then text_loop rest (results @ [to_dict contrib 0.5], insert (contrib_id contrib) seen_ids)
      else text_loop rest (results, seen_ids))"

text \<open>
  \<open>UserContribution.objects.get(id=...)\<close> followed by \<open>increment_usage()\<close>. \<open>get\<close>
  raises unless exactly one document has the id; the caller logs that and goes on.
\<close>

definition increment_usage :: "contribution list \<Rightarrow> string \<Rightarrow> contribution list" where
  "increment_usage docs i =
     (if length (filter (\<lambda>c. contrib_id c = i) docs) = 1
      then map (\<lambda>c. if contrib_id c = i then c\<lparr>usage_count := usage_count c + 1\<rparr> else c) docs
      else docs)"

text \<open>
  \<open>search_similar_contributions\<close>. The store is \<open>None\<close> when it cannot be reached:
  the first query raises, and the handler around the whole body returns the empty list.
  The result is the list returned and the store after the usage counts were raised.
\<close>

definition search_similar_contributions ::
  "(string list \<Rightarrow> string list) \<Rightarrow> database option \<Rightarrow> string \<Rightarrow> int \<Rightarrow> real \<Rightarrow>
   contrib_dict list \<times> database option" where
  "search_similar_contributions set_order store query limit min_rating =
     (case store of
        None \<Rightarrow> ([], None)
      | Some db \<Rightarrow>
          let query_keywords = extract_keywords set_order query;
              normalized_query = normalize_text query;
              all_contributions = approved_contributions (documents db) min_rating;
              approved_count = length all_contributions;
              st = question_loop normalized_query limit all_contributions ([], {});
              st = (if int (length (fst st)) < limit \<and> query_keywords \<noteq> []
                    then keyword_loop query_keywords limit all_contributions st else st);
              st = (if int (length (fst st)) < limit
                    then (case text_search db query
                                 (if approved_count > 0 then [''approved'']
                                  else [''approved'', ''pending''])
                                 min_rating (limit - int (length (fst st))) of
                            None \<Rightarrow> st
                          | Some text_results \<Rightarrow> text_loop text_results st)
                    else st);
              results = sort_key (\<lambda>x. (- similarity_score x, - rating x, - usage_count x)) (fst st);
              docs = fold (\<lambda>result docs. increment_usage docs (contrib_id result))
                       (take 3 results) (documents db)
          in (py_slice results 0 limit, Some (db\<lparr>documents := docs\<rparr>)))"

section \<open>Vector search: \<open>core/utils.py\<close>\<close>

text \<open>An exception, with the message that \<open>str(e)\<close> gives.\<close>

datatype exn = Exn string

fun exn_message :: "exn \<Rightarrow> string" where
  "exn_message (Exn m) = m"

subsection \<open>\<open>normalize\<close>\<close>

text \<open>
  Vectors are rows of a matrix of floats, modelled as lists of real numbers.
  \<open>l2_norm\<close> is \<open>np.linalg.norm\<close> along a row; \<open>divisors\<close> is the array \<open>norms\<close>
  after the assignment \<open>norms[norms == 0] = 1e-10\<close>.
\<close>

definition l2_norm :: "real list \<Rightarrow> real" where
  "l2_norm row = sqrt (sum_list (map (\<lambda>x. x * x) row))"

definition divisors :: "real list list \<Rightarrow> real list" where
  "divisors vecs = map (\<lambda>row. let n = l2_norm row in if n = 0 then 1 / 10 ^ 10 else n) vecs"

definition normalize_vecs :: "real list list \<Rightarrow> real list list" where
  "normalize_vecs vecs =
     (if sum_list (map length vecs) = 0 then vecs
      else map (\<lambda>(row, norm). map (\<lambda>x. x / norm) row) (zip vecs (divisors vecs)))"

subsection \<open>\<open>search_similar_chunks\<close>\<close>

text \<open>A metadata entry as the indexing pipeline writes it, and a chunk of a search result.\<close>

record chunk_meta =
  filename :: string
  chunk_index :: nat
  chunk_body :: string
  char_count :: nat

record chunk = chunk_meta +
  similarity :: real

definition with_similarity :: "chunk_meta \<Rightarrow> real \<Rightarrow> chunk" where
  "with_similarity m score =
     \<lparr>filename = filename m, chunk_index = chunk_index m, chunk_body = chunk_body m,
      char_count = char_count m, similarity = score\<rparr>"

text \<open>
  \<open>xs[i]\<close>. An index from \<open>-len(xs)\<close> up to \<open>-1\<close> reads from the end of the list;
  an index beyond either end raises \<open>IndexError\<close>.
\<close>

definition py_index :: "'a list \<Rightarrow> int \<Rightarrow> exn + 'a" where
  "py_index xs i =
     (if 0 \<le> i \<and> i < int (length xs) then Inr (xs ! nat i)
      else if i < 0 \<and> - int (length xs) \<le> i then Inr (xs ! nat (int (length xs) + i))
      else Inl (Exn ''list index out of range''))"

text \<open>
  The loop over the pairs of score and index id that the index returned. The state holds
  \<open>chunks\<close>, \<open>result_scores\<close> and the ids for which a warning was logged. An exception
  leaves the loop with the warnings logged so far.
\<close>

fun extract_results ::
  "chunk_meta list \<Rightarrow> real \<Rightarrow> (real \<times> int) list \<Rightarrow> chunk list \<times> real list \<times> int list \<Rightarrow>
   (exn + chunk list \<times> real list) \<times> int list" where
  "extract_results metadata similarity_threshold [] (chunks, result_scores, warnings) =
     (Inr (chunks, result_scores), warnings)"
| "extract_results metadata similarity_threshold ((score, idx) # rest)
       (chunks, result_scores, warnings) =
     (if idx < int (length metadata) \<and> score \<ge> similarity_threshold
      then (case py_index metadata idx of
              Inl e \<Rightarrow> (Inl e, warnings)
            | Inr m \<Rightarrow>
                extract_results metadata similarity_threshold rest
                  (chunks @ [with_similarity m score], result_scores @ [score], warnings))
      else if idx \<ge> int (length metadata)
      then extract_results metadata similarity_threshold rest
             (chunks, result_scores, warnings @ [idx])
      else extract_results metadata similarity_threshold rest (chunks, result_scores, warnings))"

text \<open>What a search returns: \<open>success\<close> and \<open>error\<close> are shared by both kinds of result.\<close>

record outcome =
  success :: bool
  error :: "string option"

record faiss_result = outcome +
  chunks :: "chunk list"
  scores :: "real list"
  total_found :: "nat option"
  message :: "string option"

definition failed_search :: "string \<Rightarrow> faiss_result" where
  "failed_search msg =
     \<lparr>success = False, error = Some msg, chunks = [], scores = [], total_found = None,
      message = None\<rparr>"

text \<open>
  \<open>search_similar_chunks\<close>, with \<open>k\<close> and the threshold already resolved against the
  settings. The collaborators are parameters: whether the persisted index and the
  metadata load, and the search itself (embedding of the query, normalisation and
  \<open>index.search\<close>), which yields the pairs of \<open>zip(scores[0], indices[0])\<close> or raises.
  \<open>str_float\<close> is the formatting of a float inside an f-string. The second component
  of the result is the list of ids logged as out of range.
\<close>

definition search_similar_chunks ::
  "(real \<Rightarrow> string) \<Rightarrow> (exn + 'idx) \<Rightarrow> (exn + chunk_meta list) \<Rightarrow>
   ('idx \<Rightarrow> string \<Rightarrow> int \<Rightarrow> exn + (real \<times> int) list) \<Rightarrow>
   string \<Rightarrow> int \<Rightarrow> real \<Rightarrow> faiss_result \<times> int list" where
  "search_similar_chunks str_float load_index load_metadata index_search query k
       similarity_threshold =
     (case load_index of
        Inl e \<Rightarrow> (failed_search (''Search error: '' @ exn_message e), [])
      | Inr index \<Rightarrow>
      (case load_metadata of
        Inl e \<Rightarrow> (failed_search (''Search error: '' @ exn_message e), [])
      | Inr metadata \<Rightarrow>
          if metadata = []
          then (failed_search
                  ''No indexed documents found. Please run: python manage.py embed_pdfs'', [])
          else
      (case index_search index query k of
        Inl e \<Rightarrow> (failed_search (''Search error: '' @ exn_message e), [])
      | Inr pairs \<Rightarrow>
      (case extract_results metadata similarity_threshold pairs ([], [], []) of
        (Inl e, warnings) \<Rightarrow> (failed_search (''Search error: '' @ exn_message e), warnings)
      | (Inr (chunks', result_scores), warnings) \<Rightarrow>
          if chunks' = []
          then (\<lparr>success = True, error = None, chunks = [], scores = [], total_found = Some 0,
                 message = Some (''No results found above similarity threshold '' @
                                 str_float similarity_threshold)\<rparr>, warnings)
          else (\<lparr>success = True, error = None, chunks = chunks', scores = result_scores,
                 total_found = Some (length chunks'), message = None\<rparr>, warnings)))))"

section \<open>Quality assessment and blending: \<open>core/enhanced_search.py\<close>\<close>

subsection \<open>Quality scores\<close>

text \<open>\<open>_assess_faiss_quality\<close> and \<open>_assess_mongodb_quality\<close>; neither reads the query.\<close>

definition assess_faiss_quality :: "chunk list \<Rightarrow> string \<Rightarrow> real" where
  "assess_faiss_quality faiss_chunks query =
     (if faiss_chunks = [] then 0
      else
        let similarities = map similarity faiss_chunks;
            avg_similarity =
              (if similarities \<noteq> [] then sum_list similarities / real (length similarities) else 0);
            count_bonus = min (real (length faiss_chunks) / 5) 0.2;
            quality = min (avg_similarity + count_bonus) 1
        in quality)"

definition assess_mongodb_quality :: "contrib_dict list \<Rightarrow> string \<Rightarrow> real" where
  "assess_mongodb_quality contributions query =
     (if contributions = [] then 0
      else
        let similarities = map similarity_score contributions;
            avg_similarity =
              (if similarities \<noteq> [] then sum_list similarities / real (length similarities) else 0);
            ratings = map rating contributions;
            avg_rating = (if ratings \<noteq> [] then sum_list ratings / real (length ratings) else 0);
            rating_bonus = (avg_rating / 5) * 0.3;
            count_bonus = min (real (length contributions) / 3) 0.2;
            quality = min (avg_similarity + rating_bonus + count_bonus) 1
        in quality)"

text \<open>
  The quality score as the specification words it: the average similarity, plus
  three tenths of the average rating over five, plus the count bonus, capped at one;
  zero for the empty result set.
\<close>

definition avg :: "real list \<Rightarrow> real" where
  "avg xs = sum_list xs / real (length xs)"

definition contribution_quality_spec :: "contrib_dict list \<Rightarrow> real" where
  "contribution_quality_spec results =
     (if results = [] then 0
      else min (avg (map similarity_score results) + (avg (map rating results) / 5) * 0.3
                + min (real (length results) / 3) 0.2) 1)"

subsection \<open>Context composition\<close>

text \<open>
  Decimal digits of a natural number (the \<open>{i}\<close> of an f-string), the line feed, and
  \<open>sep.join(parts)\<close>. How a float prints is left to two parameters: \<open>str_float\<close> for
  \<open>{rating}\<close> and \<open>fmt_2f\<close> for \<open>{similarity:.2f}\<close>.
\<close>

fun str_nat :: "nat \<Rightarrow> string" where
  "str_nat n =
     (if n < 10 then [char_of (48 + n)] else str_nat (n div 10) @ [char_of (48 + n mod 10)])"

declare str_nat.simps [simp del]

definition newline :: string where
  "newline = [CHR 0x0A]"

fun join :: "string \<Rightarrow> string list \<Rightarrow> string" where
  "join sep [] = []"
| "join sep [x] = x"
| "join sep (x # y # ys) = x @ sep @ join sep (y # ys)"

text \<open>
  One contribution entry and one document entry. The two composers of the source build
  their entries with the same statements and differ in the label of a contribution
  entry only, which is the first argument here.
\<close>

definition contribution_entry ::
  "string \<Rightarrow> (real \<Rightarrow> string) \<Rightarrow> (real \<Rightarrow> string) \<Rightarrow> nat \<times> contrib_dict \<Rightarrow> string" where
  "contribution_entry label str_float fmt_2f entry =
     (case entry of (i, contrib) \<Rightarrow>
        let contrib_text = label @ str_nat i @ '':'' @ newline;
            contrib_text =
              (if question contrib \<noteq> []
               then contrib_text @ ''Question: '' @ question contrib @ newline
               else contrib_text);
            contrib_text = contrib_text @ ''Answer: '' @ answer contrib @ newline;
            contrib_text = contrib_text @ ''Rating: '' @ str_float (rating contrib) @
                           ''/5.0 (Similarity: '' @ fmt_2f (similarity_score contrib) @ '')''
        in contrib_text)"

definition document_entry :: "(real \<Rightarrow> string) \<Rightarrow> nat \<times> chunk \<Rightarrow> string" where
  "document_entry fmt_2f entry =
     (case entry of (i, chunk) \<Rightarrow>
        ''DOCUMENT #'' @ str_nat i @ '' (from '' @ filename chunk @ ''):'' @ newline @
        chunk_body chunk @ newline @ ''(Similarity: '' @ fmt_2f (similarity chunk) @ '')'')"

text \<open>\<open>enumerate(xs, 1)\<close>\<close>

definition enumerate1 :: "'a list \<Rightarrow> (nat \<times> 'a) list" where
  "enumerate1 xs = zip [1 ..< Suc (length xs)] xs"

text \<open>\<open>_create_combined_context\<close>: the standard rendering.\<close>

definition create_combined_context ::
  "(real \<Rightarrow> string) \<Rightarrow> (real \<Rightarrow> string) \<Rightarrow> chunk list \<Rightarrow> contrib_dict list \<Rightarrow> string" where
  "create_combined_context str_float fmt_2f faiss_chunks contributions =
     (let context_parts = [];
          context_parts =
            (if contributions \<noteq> []
             then
               let contribution_contexts =
                     map (contribution_entry ''USER CONTRIBUTION #'' str_float fmt_2f)
                       (enumerate1 contributions);
                   contributions_text = join (newline @ newline) contribution_contexts
               in context_parts @
                  [''USER CONTRIBUTIONS AND ENHANCEMENTS:'' @ newline @ contributions_text]
             else context_parts);
          context_parts =
            (if faiss_chunks \<noteq> []
             then
               let faiss_contexts = map (document_entry fmt_2f) (enumerate1 faiss_chunks);
                   faiss_context = join (newline @ newline) faiss_contexts
               in context_parts @ [''ORIGINAL KNOWLEDGE BASE:'' @ newline @ faiss_context]
             else context_parts)
      in join (newline @ newline) context_parts)"

text \<open>
  The label of a contribution entry in the emphasized rendering starts with the four
  bytes of a target emoji in UTF-8.
\<close>

definition emphasized_label :: string where
  "emphasized_label =
     [CHR 0xF0, CHR 0x9F, CHR 0x8E, CHR 0xAF] @ '' HIGHLY RELEVANT USER CONTRIBUTION #''"

text \<open>\<open>_create_prioritized_context\<close>: the emphasized rendering, or the standard one.\<close>

definition create_prioritized_context ::
  "(real \<Rightarrow> string) \<Rightarrow> (real \<Rightarrow> string) \<Rightarrow> contrib_dict list \<Rightarrow> chunk list \<Rightarrow> bool \<Rightarrow> string" where
  "create_prioritized_context str_float fmt_2f contributions faiss_chunks prioritize_mongodb =
     (if prioritize_mongodb \<and> contributions \<noteq> []
      then
        let contribution_contexts =
              map (contribution_entry emphasized_label str_float fmt_2f)
                (enumerate1 contributions);
            contributions_text = join (newline @ newline) contribution_contexts;
            context_parts = [''USER CONTRIBUTIONS (PRIORITIZED):'' @ newline @ contributions_text];
            context_parts =
              (if faiss_chunks \<noteq> []
               then
                 let faiss_contexts = map (document_entry fmt_2f) (enumerate1 faiss_chunks);
                     faiss_context = join (newline @ newline) faiss_contexts
                 in context_parts @ [''SUPPLEMENTARY DOCUMENTATION:'' @ newline @ faiss_context]
               else context_parts)
        in join (newline @ newline) context_parts
      else create_combined_context str_float fmt_2f faiss_chunks contributions)"

subsection \<open>The entry point\<close>

text \<open>
  The metadata of a response. The failure response carries the first three keys only;
  the other keys are \<open>details\<close>. \<open>prioritized_mongodb\<close> is the truth value of the
  Python expression \<open>mongodb_quality > faiss_quality and contribution_results\<close>.
\<close>

record metadata_details =
  has_contributions :: bool
  total_sources :: nat
  faiss_quality :: real
  mongodb_quality :: real
  prioritized_mongodb :: bool

record search_metadata =
  faiss_count :: nat
  contribution_count :: nat
  search_time :: real
  details :: "metadata_details option"

record search_response = outcome +
  faiss_results :: "chunk list"
  contribution_results :: "contrib_dict list"
  combined_context :: string
  search_metadata :: search_metadata
  original_faiss_result :: "faiss_result option"

text \<open>The response of the outer exception handler.\<close>

definition failure_response :: "exn \<Rightarrow> search_response" where
  "failure_response e =
     \<lparr>success = False, error = Some (exn_message e), faiss_results = [],
      contribution_results = [], combined_context = [],
      search_metadata =
        \<lparr>faiss_count = 0, contribution_count = 0, search_time = 0, details = None\<rparr>,
      original_faiss_result = None\<rparr>"

text \<open>
  \<open>enhanced_search_with_contributions\<close>. The two searches it calls are parameters, each
  returning its result or raising: \<open>chunk_search\<close> stands for \<open>search_similar_chunks\<close>
  and \<open>contribution_search\<close> for \<open>search_similar_contributions\<close>. No result of the
  vector search has a key \<open>search_time\<close>, so the metadata reports zero.
\<close>

definition enhanced_search_with_contributions ::
  "(real \<Rightarrow> string) \<Rightarrow> (real \<Rightarrow> string) \<Rightarrow>
   (string \<Rightarrow> int option \<Rightarrow> real option \<Rightarrow> exn + faiss_result) \<Rightarrow>
   (string \<Rightarrow> int \<Rightarrow> real \<Rightarrow> exn + contrib_dict list) \<Rightarrow>
   string \<Rightarrow> int option \<Rightarrow> real option \<Rightarrow> bool \<Rightarrow> int \<Rightarrow> search_response" where
  "enhanced_search_with_contributions str_float fmt_2f chunk_search contribution_search
       query k similarity_threshold include_contributions contribution_limit =
     (case chunk_search query k similarity_threshold of
        Inl e \<Rightarrow> failure_response e
      | Inr faiss_result \<Rightarrow>
          let faiss_chunks = (if success faiss_result then chunks faiss_result else []);
              found =
                (if include_contributions
                 then (case contribution_search query contribution_limit 0 of
                         Inl e \<Rightarrow> []
                       | Inr rs \<Rightarrow> rs)
                 else []);
              faiss_q = assess_faiss_quality faiss_chunks query;
              mongodb_q = assess_mongodb_quality found query;
              context =
                (if mongodb_q > faiss_q \<and> found \<noteq> []
                 then create_prioritized_context str_float fmt_2f found faiss_chunks True
                 else create_combined_context str_float fmt_2f faiss_chunks found)
          in \<lparr>success = True, error = None, faiss_results = faiss_chunks,
              contribution_results = found, combined_context = context,
              search_metadata =
                \<lparr>faiss_count = length faiss_chunks,
                 contribution_count = length found,
                 search_time = 0,
                 details = Some
                   \<lparr>has_contributions = length found > 0,
                    total_sources = length faiss_chunks + length found,
                    faiss_quality = faiss_q,
                    mongodb_quality = mongodb_q,
                    prioritized_mongodb = (mongodb_q > faiss_q \<and> found \<noteq> [])\<rparr>\<rparr>,
              original_faiss_result = Some faiss_result\<rparr>)"

text \<open>
  What tells the two renderings apart in the composed context: the emphasized one, and
  only that one, opens with the heading of the prioritized contributions.
\<close>

definition emphasized :: "string \<Rightarrow> bool" where
  "emphasized context = prefix ''USER CONTRIBUTIONS (PRIORITIZED):'' context"

text \<open>
  Two readings of the pairs that the index returned, used to state what the loop of
  \<open>search_similar_chunks\<close> computes: the pairs that pass its first test, and the ids for
  which it logs a warning.
\<close>

definition hits :: "chunk_meta list \<Rightarrow> real \<Rightarrow> (real \<times> int) list \<Rightarrow> (real \<times> int) list" where
  "hits metadata similarity_threshold pairs =
     filter (\<lambda>(score, idx). idx < int (length metadata) \<and> score \<ge> similarity_threshold) pairs"

definition out_of_range :: "chunk_meta list \<Rightarrow> (real \<times> int) list \<Rightarrow> int list" where
  "out_of_range metadata pairs =
     map snd (filter (\<lambda>(score, idx). idx \<ge> int (length metadata)) pairs)"

section \<open>Example data\<close>

text \<open>A contribution result, a chunk, and two searches to run the entry point with.\<close>

definition example_result :: "real \<Rightarrow> real \<Rightarrow> contrib_dict" where
  "example_result r s =
     \<lparr>contrib_id = ''1'', question = ''how to steam milk'', answer = ''use the steam wand'',
      rating = r, usage_count = 0, is_approved = ''approved'', similarity_score = s\<rparr>"

definition example_chunk :: "real \<Rightarrow> chunk" where
  "example_chunk s =
     \<lparr>filename = ''manual.pdf'', chunk_index = 0, chunk_body = ''steam the milk'',
      char_count = 14, similarity = s\<rparr>"

definition example_faiss_result :: faiss_result where
  "example_faiss_result =
     \<lparr>success = True, error = None, chunks = [example_chunk (4 / 5), example_chunk (3 / 5)],
      scores = [4 / 5, 3 / 5], total_found = Some 2, message = None\<rparr>"

definition example_chunk_search :: "string \<Rightarrow> int option \<Rightarrow> real option \<Rightarrow> exn + faiss_result" where
  "example_chunk_search query k threshold =
     (if query = [] then Inl (Exn ''empty query'') else Inr example_faiss_result)"

definition example_contribution_search :: "string \<Rightarrow> int \<Rightarrow> real \<Rightarrow> exn + contrib_dict list" where
  "example_contribution_search query limit min_rating =
     (if limit \<le> 0 then Inl (Exn ''store unreachable'')
      else Inr [example_result (9 / 2) (7 / 10)])"

text \<open>Two stored contributions, and a store whose text index matches on the question.\<close>

definition example_contribution :: contribution where
  "example_contribution =
     \<lparr>contrib_id = ''c2'', question = ''Steam milk?'', answer = ''Hold the jug'',
      rating = 3, usage_count = 2, is_approved = ''approved''\<rparr>"

definition pending_contribution :: contribution where
  "pending_contribution =
     \<lparr>contrib_id = ''c1'', question = ''How to steam milk'', answer = ''Use the steam wand'',
      rating = 4, usage_count = 0, is_approved = ''pending''\<rparr>"

definition example_store :: database where
  "example_store =
     \<lparr>documents = [pending_contribution],
      text_index = Some (\<lambda>query c. sublist (lower query) (lower (question c)))\<rparr>"

text \<open>A metadata sequence of two entries, and an index that returns three pairs.\<close>

definition example_metadata :: "chunk_meta list" where
  "example_metadata =
     [\<lparr>filename = ''a.pdf'', chunk_index = 0, chunk_body = ''grind the beans'', char_count = 15\<rparr>,
      \<lparr>filename = ''a.pdf'', chunk_index = 1, chunk_body = ''steam the milk'', char_count = 14\<rparr>]"

definition example_index_search :: "unit \<Rightarrow> string \<Rightarrow> int \<Rightarrow> exn + (real \<times> int) list" where
  "example_index_search index query k = Inr [(9 / 10, 1), (4 / 5, 5), (1 / 10, 0)]"

text \<open>
  Two more answers of an index over the same metadata: one of an inner-product index
  that holds two vectors and is asked for three neighbours, so that the third pair is
  its filler (the id \<open>-1\<close> with the lowest 32-bit float as score), and one with an id
  below \<open>-len(metadata)\<close>.
\<close>

definition example_filler_search :: "unit \<Rightarrow> string \<Rightarrow> int \<Rightarrow> exn + (real \<times> int) list" where
  "example_filler_search index query k =
     Inr [(9 / 10, 1), (1 / 2, 0), (- 340282346638528859811704183484516925440, - 1)]"

definition example_stray_search :: "unit \<Rightarrow> string \<Rightarrow> int \<Rightarrow> exn + (real \<times> int) list" where
  "example_stray_search index query k = Inr [(9 / 10, - 3), (4 / 5, 5)]"

section \<open>Properties of the chunker\<close>

subsection \<open>Trimming is idempotent\<close>

lemma dropWhile_fixed: "xs = [] \<or> \<not> P (hd xs) \<Longrightarrow> dropWhile P xs = xs"
  by (cases xs) auto

lemma dropWhile_hd: "dropWhile P xs \<noteq> [] \<Longrightarrow> \<not> P (hd (dropWhile P xs))"
  by (simp add: hd_dropWhile)

lemma strip_hd: 
  assumes "strip s \<noteq> []" shows "\<not> is_space (hd (strip s))"
proof -
  let ?a = "dropWhile is_space s"
  let ?b = "dropWhile is_space (rev ?a)"
  have "?a = rev (takeWhile is_space (rev ?a) @ ?b)"
    by (simp only: takeWhile_dropWhile_id rev_rev_ident)
  then have a: "?a = strip s @ rev (takeWhile is_space (rev ?a))"
    by (simp only: rev_append strip_def)
  from assms have "hd ?a = hd (strip s)" by (subst a) simp
  moreover have "?a \<noteq> []"
  proof
    assume "?a = []"
    then have "strip s = []"
      unfolding strip_def by (simp only: rev.simps dropWhile.simps)
    with assms show False by simp
  qed
  ultimately show ?thesis using dropWhile_hd [of is_space s] by simp
qed

lemma strip_idem: "strip (strip s) = strip s"
proof (cases "strip s = []")
  case True
  have "strip [] = []" by (simp add: strip_def)
  with True show ?thesis by simp
next
  case False
  then have "dropWhile is_space (strip s) = strip s"
    using strip_hd [of s] by (intro dropWhile_fixed) simp
  then have "strip (strip s) = rev (dropWhile is_space (rev (strip s)))"
    by (simp add: strip_def)
  also have "\<dots> = strip s" by (simp add: strip_def)
  finally show ?thesis .
qed

subsection \<open>The loop of \<open>chunk_text\<close> returns\<close>

text \<open>
  Each pass that does not break moves \<open>start\<close> forward, so the distance to the end of the
  text is a measure of the loop. The induction carries the invariant that every chunk
  collected so far is non-empty after trimming.
\<close>

lemma chunk_step_advances:
  "chunk_step text chunk_size overlap (start, acc) = Inl (start', acc') \<Longrightarrow> start < start'"
  by (auto simp: chunk_step_def Let_def split: if_splits)

lemma chunk_step_Inl_chunks:
  "chunk_step text chunk_size overlap (start, acc) = Inl (start', acc') \<Longrightarrow>
   \<forall>c \<in> set acc. strip c \<noteq> [] \<Longrightarrow> \<forall>c \<in> set acc'. strip c \<noteq> []"
  by (auto simp: chunk_step_def Let_def strip_idem split: if_splits)

lemma chunk_step_Inr_chunks:
  "chunk_step text chunk_size overlap (start, acc) = Inr acc' \<Longrightarrow>
   \<forall>c \<in> set acc. strip c \<noteq> [] \<Longrightarrow> \<forall>c \<in> set acc'. strip c \<noteq> []"
  by (auto simp: chunk_step_def Let_def strip_idem split: if_splits)

lemma chunk_loop_returns:
  "\<exists>r. chunk_loop text chunk_size overlap (start, acc) = Some r \<and>
       ((\<forall>c \<in> set acc. strip c \<noteq> []) \<longrightarrow> (\<forall>c \<in> set r. strip c \<noteq> []))"
proof (induction "nat (int (length text) - start)" arbitrary: start acc rule: less_induct)
  case less
  show ?case
  proof (cases "start < int (length text)")
    case False
    then show ?thesis by (subst chunk_loop.simps) simp
  next
    case True
    show ?thesis
    proof (cases "chunk_step text chunk_size overlap (start, acc)")
      case (Inr r)
      with True have "chunk_loop text chunk_size overlap (start, acc) = Some r"
        by (subst chunk_loop.simps) simp
      with Inr show ?thesis using chunk_step_Inr_chunks by blast
    next
      case (Inl st')
      obtain start' acc' where st': "st' = (start', acc')" by (cases st')
      with Inl have adv: "start < start'" using chunk_step_advances by blast
      with True have "nat (int (length text) - start') < nat (int (length text) - start)" by simp
      from less [OF this] obtain r where
        r: "chunk_loop text chunk_size overlap (start', acc') = Some r"
        and good: "(\<forall>c \<in> set acc'. strip c \<noteq> []) \<longrightarrow> (\<forall>c \<in> set r. strip c \<noteq> [])"
        by blast
      from True Inl st' r have "chunk_loop text chunk_size overlap (start, acc) = Some r"
        by (subst chunk_loop.simps) simp
      with good Inl st' show ?thesis using chunk_step_Inl_chunks by blast
    qed
  qed
qed

lemma chunk_loop_total: "\<exists>r. chunk_loop text chunk_size overlap st = Some r"
  using chunk_loop_returns [of "text" chunk_size overlap "fst st" "snd st"] by auto

subsection \<open>A worked run\<close>

text \<open>
  The text \<open>ab cd\<close> with windows of three characters and an effective overlap of one:
  two passes, the second one reaching the end of the text.
\<close>

lemma chunk_step_example_1: "chunk_step ''ab cd'' 3 1 (0, []) = Inl (2, [''ab''])"
  by (simp add: chunk_step_def strip_def is_space_def py_slice_def slice_bound_def Let_def)

lemma chunk_step_example_2: "chunk_step ''ab cd'' 3 1 (2, [''ab'']) = Inr [''ab'', ''cd'']"
  by (simp add: chunk_step_def strip_def is_space_def py_slice_def slice_bound_def Let_def)

lemma chunk_loop_example: "chunk_loop ''ab cd'' 3 1 (0, []) = Some [''ab'', ''cd'']"
  by (simp add: chunk_loop.simps [of _ _ _ "(0, [])"] chunk_loop.simps [of _ _ _ "(2, [''ab''])"]
      chunk_step_example_1 chunk_step_example_2)

lemma strip_examples:
  "strip ''ab cd'' = ''ab cd''" "strip ''  '' = []" "strip ''ab'' = ''ab''" "strip ''cd'' = ''cd''"
  by (simp_all add: strip_def is_space_def)

lemma chunk_text_example_clamped:
  "chunk_text 1000 200 ''ab cd'' (Some 3) (Some 5) = Some [''ab'', ''cd'']"
  by (simp add: chunk_text_def strip_examples chunk_loop_example)

lemma chunk_text_example:
  "chunk_text 1000 200 ''ab cd'' (Some 3) (Some 1) = Some [''ab'', ''cd'']"
  by (simp add: chunk_text_def strip_examples chunk_loop_example)

subsection \<open>Termination\<close>

text \<open>
  Claim C6. For every text and every positive \<open>chunk_size\<close> and \<open>overlap\<close> (given
  as arguments or taken from the settings), chunking terminates: \<open>chunk_text\<close> returns
  a list of chunks. An overlap that is not below the
  chunk size is first replaced by \<open>chunk_size div 2\<close> (the loop runs with that value),
  and whenever the loop goes on, the new start position is
  \<open>max (start + 1) (window_end - overlap)\<close>, which lies strictly beyond the previous one.
\<close>

theorem chunk_text_terminates:
  assumes "chunk_size = (case size_arg of None \<Rightarrow> CS | Some c \<Rightarrow> c)"
    and "overlap = (case overlap_arg of None \<Rightarrow> CO | Some v \<Rightarrow> v)"
    and "0 < chunk_size" and "0 < overlap"
  shows "(\<exists>result. chunk_text CS CO text size_arg overlap_arg = Some result)
    \<and> (chunk_size \<le> overlap \<and> strip text \<noteq> [] \<longrightarrow>
         chunk_text CS CO text size_arg overlap_arg =
         chunk_loop text chunk_size (chunk_size div 2) (0, []))
    \<and> (\<forall>ov start acc start' acc'.
         chunk_step text chunk_size ov (start, acc) = Inl (start', acc') \<longrightarrow>
         start' = max (start + 1) (min (start + chunk_size) (int (length text)) - ov) \<and>
         start < start')"
proof (intro conjI allI impI)
  show "\<exists>result. chunk_text CS CO text size_arg overlap_arg = Some result"
    using chunk_loop_total by (simp add: chunk_text_def Let_def)
next
  assume "chunk_size \<le> overlap \<and> strip text \<noteq> []"
  moreover have "strip [] = []" by (simp add: strip_def)
  ultimately show "chunk_text CS CO text size_arg overlap_arg =
      chunk_loop text chunk_size (chunk_size div 2) (0, [])"
    using assms(1,2) by (auto simp: chunk_text_def Let_def)
next
  fix ov start acc start' acc'
  assume "chunk_step text chunk_size ov (start, acc) = Inl (start', acc')"
  then show "start' = max (start + 1) (min (start + chunk_size) (int (length text)) - ov)"
    by (auto simp: chunk_step_def Let_def split: if_splits)
next
  fix ov start acc start' acc'
  assume "chunk_step text chunk_size ov (start, acc) = Inl (start', acc')"
  then show "start < start'" by (rule chunk_step_advances)
qed

theorem chunk_text_terminates_witness:
  "0 < (3::int) \<and> 0 < (5::int) \<and> (3::int) \<le> 5 \<and> strip ''ab cd'' \<noteq> []
   \<and> chunk_text 1000 200 ''ab cd'' (Some 3) (Some 5) = Some [''ab'', ''cd'']
   \<and> chunk_loop ''ab cd'' 3 (3 div 2) (0, []) = Some [''ab'', ''cd'']
   \<and> chunk_step ''ab cd'' 3 1 (0, []) = Inl (2, [''ab'']) \<and> (0::int) < 2"
  using chunk_text_terminates [of 3 1000 "Some 3" 5 200 "Some 5" "''ab cd''"]
  by (simp add: chunk_text_example_clamped chunk_step_example_1 strip_examples)

subsection \<open>Chunks are never empty\<close>

text \<open>
  Claim C7. Chunking an empty or whitespace-only text returns the empty list, not an
  error; and for every non-empty text, \<open>chunk_text\<close> returns and every chunk of the
  result is non-empty after trimming.
\<close>

theorem chunk_text_chunks_nonempty:
  "(text = [] \<or> strip text = [] \<longrightarrow> chunk_text CS CO text chunk_size overlap = Some [])
   \<and> (text \<noteq> [] \<longrightarrow>
        (\<exists>result. chunk_text CS CO text chunk_size overlap = Some result
                \<and> (\<forall>c \<in> set result. strip c \<noteq> [])))"
proof (intro conjI impI)
  assume "text = [] \<or> strip text = []"
  then show "chunk_text CS CO text chunk_size overlap = Some []"
    by (auto simp: chunk_text_def Let_def)
next
  assume "text \<noteq> []"
  show "\<exists>result. chunk_text CS CO text chunk_size overlap = Some result
                \<and> (\<forall>c \<in> set result. strip c \<noteq> [])"
  proof (cases "strip text = []")
    case True
    then show ?thesis by (simp add: chunk_text_def Let_def)
  next
    case False
    with \<open>text \<noteq> []\<close> show ?thesis
      using chunk_loop_returns [of "text" _ _ 0 "[]"]
      by (simp add: chunk_text_def Let_def)
  qed
qed

theorem chunk_text_chunks_nonempty_witness:
  "strip ''  '' = [] \<and> chunk_text 1000 200 ''  '' None None = Some []
   \<and> ''ab cd'' \<noteq> [] \<and> chunk_text 1000 200 ''ab cd'' (Some 3) (Some 1) = Some [''ab'', ''cd'']
   \<and> strip ''ab'' \<noteq> [] \<and> strip ''cd'' \<noteq> []"
  using chunk_text_chunks_nonempty [of "''  ''" 1000 200 None None]
    chunk_text_chunks_nonempty [of "''ab cd''" 1000 200 "Some 3" "Some 1"]
  by (simp add: chunk_text_example strip_examples)

section \<open>Properties of the lexical matcher\<close>

subsection \<open>Each component lies between zero and one\<close>

lemma py_split_Nil: "py_split [] = []"
  by (simp add: py_split_def)

lemma jaccard_similarity_bounds:
  assumes "finite words1" and "finite words2"
  shows "0 \<le> jaccard_similarity words1 words2" and "jaccard_similarity words1 words2 \<le> 1"
proof -
  have "card (words1 \<inter> words2) \<le> card (words1 \<union> words2)"
    using assms by (intro card_mono) auto
  then have "real (card (words1 \<inter> words2)) \<le> real (card (words1 \<union> words2))" by simp
  then show "jaccard_similarity words1 words2 \<le> 1"
    by (auto simp: jaccard_similarity_def Let_def divide_le_eq_1)
  show "0 \<le> jaccard_similarity words1 words2"
    by (simp add: jaccard_similarity_def Let_def)
qed

lemma substring_matches_le: "finite words1 \<Longrightarrow> substring_matches words1 words2 \<le> card words1"
  unfolding substring_matches_def by (intro card_mono) auto

lemma substring_similarity_bounds:
  assumes "finite words1"
  shows "0 \<le> substring_similarity words1 words2" and "substring_similarity words1 words2 \<le> 1"
proof -
  have "real (substring_matches words1 words2) \<le> real (max (card words1) (card words2))"
    using substring_matches_le [OF assms, of words2] by simp
  then show "substring_similarity words1 words2 \<le> 1"
    by (auto simp: substring_similarity_def divide_le_eq_1)
  show "0 \<le> substring_similarity words1 words2"
    by (simp add: substring_similarity_def)
qed

lemma phrase_similarity_bounds:
  "0 \<le> phrase_similarity text1 text2" "phrase_similarity text1 text2 \<le> 1 / 2"
  by (simp_all add: phrase_similarity_def Let_def)

lemma components_of_empty:
  "jaccard_similarity {} words = 0" "jaccard_similarity words {} = 0"
  "substring_similarity {} words = 0" "substring_similarity words {} = 0"
  by (simp_all add: jaccard_similarity_def substring_similarity_def substring_matches_def Let_def)

lemma phrase_similarity_no_words:
  "py_split text1 = [] \<or> py_split text2 = [] \<Longrightarrow> phrase_similarity text1 text2 = 0"
  by (auto simp: phrase_similarity_def)

lemma weighted_sum_bounds:
  "0 \<le> 0.6 * jaccard_similarity (set ws1) (set ws2)
        + 0.3 * substring_similarity (set ws1) (set ws2) + 0.1 * phrase_similarity text1 text2"
  "0.6 * jaccard_similarity (set ws1) (set ws2)
        + 0.3 * substring_similarity (set ws1) (set ws2) + 0.1 * phrase_similarity text1 text2 \<le> 1"
  using jaccard_similarity_bounds [of "set ws1" "set ws2"]
    substring_similarity_bounds [of "set ws1" "set ws2"]
    phrase_similarity_bounds [of text1 text2]
  by simp_all

subsection \<open>The phrase bonus takes two values\<close>

text \<open>
  A window of \<open>phrases1\<close> is as long as \<open>text2\<close>, so it occurs in \<open>text2\<close> only if it
  is \<open>text2\<close>, and then \<open>text2\<close> occurs in \<open>text1\<close>, which the first test of the chain
  has already decided. The two branches that assign 0.3 are never taken.
\<close>

lemma phrases_are_windows:
  assumes "phrase \<in> set (phrases text1 text2)"
  shows "length phrase = length text2" and "sublist phrase text1"
proof -
  from assms obtain i where i: "i < nat (int (length text1) - int (length text2) + 1)"
    and phrase: "phrase = py_slice text1 (int i) (int i + int (length text2))"
    by (auto simp: phrases_def)
  from i have le: "i + length text2 \<le> length text1" by linarith
  then have eq: "phrase = take (length text2) (drop i text1)"
    unfolding phrase py_slice_def slice_bound_def Let_def
    by (simp add: nat_add_distrib min_absorb1)
  with le show "length phrase = length text2" by simp
  have "sublist (take (length text2) (drop i text1)) (drop i text1)" by (rule sublist_take)
  moreover have "sublist (drop i text1) text1" by (rule sublist_drop)
  ultimately show "sublist phrase text1" unfolding eq by (rule sublist_order.order_trans)
qed

lemma sublist_same_length: "sublist xs ys \<Longrightarrow> length xs = length ys \<Longrightarrow> xs = ys"
  by (auto simp: sublist_def)

lemma no_long_window_match:
  assumes "\<not> sublist text2 text1"
  shows "\<not> list_ex (\<lambda>phrase. length phrase > 10 \<and> sublist phrase text2) (phrases text1 text2)"
proof
  assume "list_ex (\<lambda>phrase. length phrase > 10 \<and> sublist phrase text2) (phrases text1 text2)"
  then obtain phrase where p: "phrase \<in> set (phrases text1 text2)" and s: "sublist phrase text2"
    by (auto simp: list_ex_iff)
  from phrases_are_windows [OF p] s have "phrase = text2" by (intro sublist_same_length)
  with phrases_are_windows(2) [OF p] assms show False by simp
qed

lemma phrase_similarity_values:
  "phrase_similarity text1 text2 =
     (if length (py_split text1) > 1 \<and> length (py_split text2) > 1
         \<and> (sublist text1 text2 \<or> sublist text2 text1) then 1 / 2 else 0)"
  using no_long_window_match [of text2 text1] no_long_window_match [of text1 text2]
  by (auto simp: phrase_similarity_def Let_def)

subsection \<open>Where the results of the first loop come from\<close>

lemma question_loop_results:
  "\<forall>r \<in> set (fst (question_loop normalized_query limit contribs (results, seen_ids))).
     r \<in> set results \<or>
     (\<exists>c \<in> set contribs.
        r = to_dict c
              (max (calculate_text_similarity normalized_query (normalize_text (question c)))
                   (calculate_text_similarity normalized_query (normalize_text (answer c)))))"
proof (induction contribs arbitrary: results seen_ids)
  case Nil
  show ?case by simp
next
  case (Cons c contribs)
  show ?case
    using Cons.IH [of results seen_ids]
      Cons.IH [of "results @ [to_dict c
              (max (calculate_text_similarity normalized_query (normalize_text (question c)))
                   (calculate_text_similarity normalized_query (normalize_text (answer c))))]"
          "insert (contrib_id c) seen_ids"]
    by (auto simp: Let_def)
qed

lemma similarity_examples:
  "calculate_text_similarity ''steam milk'' ''milk'' = 9 / 20"
  "jaccard_similarity (set (py_split ''steam milk'')) (set (py_split ''milk'')) = 1 / 2"
  "substring_similarity (set (py_split ''steam milk'')) (set (py_split ''milk'')) = 1 / 2"
  "phrase_similarity ''steam milk'' ''milk'' = 0"
  "normalize_text (question example_contribution) = ''steam milk''"
  "normalize_text (answer example_contribution) = ''hold the jug''"
  "calculate_text_similarity ''steam milk'' ''steam milk'' = 19 / 20"
  "calculate_text_similarity ''steam milk'' ''hold the jug'' = 0"
  "fst (question_loop ''steam milk'' 5 [example_contribution] ([], {}))
     = [to_dict example_contribution (19 / 20)]"
  by code_simp+

subsection \<open>The score\<close>

text \<open>
  The score of the code is the capped weighted sum of its three components, also where
  the function returns early, since all three vanish there. Its first two components are
  the ones of the specification.
\<close>

lemma calculate_text_similarity_components:
  "calculate_text_similarity text1 text2 =
     min (0.6 * jaccard_similarity (set (py_split text1)) (set (py_split text2))
          + 0.3 * substring_similarity (set (py_split text1)) (set (py_split text2))
          + 0.1 * phrase_similarity text1 text2) 1"
proof (cases "py_split text1 = [] \<or> py_split text2 = []")
  case True
  then have "0.6 * jaccard_similarity (set (py_split text1)) (set (py_split text2))
          + 0.3 * substring_similarity (set (py_split text1)) (set (py_split text2))
          + 0.1 * phrase_similarity text1 text2 = 0"
    by (auto simp: components_of_empty phrase_similarity_no_words)
  moreover from True have "calculate_text_similarity text1 text2 = 0"
    by (auto simp: calculate_text_similarity_def Let_def)
  ultimately show ?thesis by simp
next
  case False
  then have "text1 \<noteq> []" "text2 \<noteq> []" using py_split_Nil by auto
  with False show ?thesis
    by (simp add: calculate_text_similarity_def Let_def mult.commute)
qed

lemma jaccard_overlap_code: "jaccard_overlap (tokens text1) (tokens text2) =
    jaccard_similarity (set (py_split text1)) (set (py_split text2))"
  by (simp add: jaccard_overlap_def jaccard_similarity_def tokens_def Let_def)

lemma substring_ratio_code: "substring_ratio (tokens text1) (tokens text2) =
    substring_similarity (set (py_split text1)) (set (py_split text2))"
proof -
  have "{a \<in> A. length a > 3 \<and> (\<exists>b \<in> B. length b > 3 \<and> (sublist a b \<or> sublist b a))} =
        {word1 \<in> A. \<exists>word2 \<in> B. length word1 > 3 \<and> length word2 > 3 \<and>
            (sublist word1 word2 \<or> sublist word2 word1)}" for A B :: "string set"
    by auto
  then show ?thesis
    by (simp add: substring_ratio_def substring_similarity_def substring_matches_def tokens_def)
qed

lemma similarity_score_to_dict: "similarity_score (to_dict c s) = s"
  by (simp add: to_dict_def)

lemma spec_examples:
  "lexical_score_spec ''steam milk'' ''milk'' = 1 / 2"
  "lexical_score_spec ''steam milk'' ''how to steam milk'' = 1 / 2"
  "calculate_text_similarity ''steam milk'' ''how to steam milk'' = 1 / 2"
  "lexical_score_spec ''steam milk'' ''hold the jug'' = 0"
  "long_common_substring ''steam milk'' ''hold the jug'' = False"
  "py_split ''steam milk'' = [''steam'', ''milk'']"
  "py_split ''how to steam milk'' = [''how'', ''to'', ''steam'', ''milk'']"
  "py_split ''milk'' = [''milk'']"
  "py_split ''hold the jug'' = [''hold'', ''the'', ''jug'']"
  "sublist ''steam milk'' ''how to steam milk'' = True"
  "jaccard_overlap (tokens ''steam milk'') (tokens ''milk'') = 1 / 2"
  "substring_ratio (tokens ''steam milk'') (tokens ''milk'') = 1 / 2"
  by code_simp+

text \<open>
  Claim C3. The lexical similarity score is claimed to equal, for every pair of texts,
  the capped weighted sum of the Jaccard overlap, the substring-overlap ratio and the
  phrase-containment bonus. The code counts a phrase bonus only when both texts have more
  than one word, so the claim fails for a one-word text contained in the other. What
  holds: the score lies between zero and one; when both texts have more than one word,
  and one contains the other or they share no substring of more than ten characters, the
  score is the one of the specification; when either text has at most one word, the
  score is the capped sum of the first two weighted components, with no phrase bonus;
  and every candidate of the first loop of the search carries, as its
  \<open>similarity_score\<close>, the maximum of the score on the normalized question and on the
  normalized answer of its contribution. Nothing is said of two texts of several words
  that share a long substring while neither contains the other.
\<close>

theorem calculate_text_similarity_amended:
  "0 \<le> calculate_text_similarity text1 text2
   \<and> calculate_text_similarity text1 text2 \<le> 1
   \<and> (1 < length (py_split text1) \<and> 1 < length (py_split text2)
        \<and> (sublist text1 text2 \<or> sublist text2 text1 \<or> \<not> long_common_substring text1 text2)
        \<longrightarrow> calculate_text_similarity text1 text2 = lexical_score_spec text1 text2)
   \<and> (length (py_split text1) \<le> 1 \<or> length (py_split text2) \<le> 1
        \<longrightarrow> calculate_text_similarity text1 text2 =
              min (0.6 * jaccard_overlap (tokens text1) (tokens text2)
                   + 0.3 * substring_ratio (tokens text1) (tokens text2)) 1)
   \<and> (\<forall>r \<in> set (fst (question_loop normalized_query limit contribs ([], {}))).
        \<exists>c \<in> set contribs.
           r = to_dict c
                 (max (calculate_text_similarity normalized_query (normalize_text (question c)))
                      (calculate_text_similarity normalized_query (normalize_text (answer c))))
           \<and> similarity_score r =
                 max (calculate_text_similarity normalized_query (normalize_text (question c)))
                     (calculate_text_similarity normalized_query (normalize_text (answer c))))"
proof (intro conjI impI)
  note eq = calculate_text_similarity_components [of text1 text2]
  show "0 \<le> calculate_text_similarity text1 text2"
    unfolding eq using weighted_sum_bounds(1) [of "py_split text1" "py_split text2" text1 text2]
    by simp
  show "calculate_text_similarity text1 text2 \<le> 1"
    unfolding eq by simp
next
  assume multi: "1 < length (py_split text1) \<and> 1 < length (py_split text2)
        \<and> (sublist text1 text2 \<or> sublist text2 text1 \<or> \<not> long_common_substring text1 text2)"
  then have "phrase_similarity text1 text2 = phrase_containment_bonus text1 text2"
    by (auto simp: phrase_similarity_values phrase_containment_bonus_def)
  then show "calculate_text_similarity text1 text2 = lexical_score_spec text1 text2"
    by (simp only: calculate_text_similarity_components lexical_score_spec_def
        jaccard_overlap_code substring_ratio_code)
next
  assume "length (py_split text1) \<le> 1 \<or> length (py_split text2) \<le> 1"
  then have "phrase_similarity text1 text2 = 0"
    by (auto simp: phrase_similarity_values)
  then show "calculate_text_similarity text1 text2 =
              min (0.6 * jaccard_overlap (tokens text1) (tokens text2)
                   + 0.3 * substring_ratio (tokens text1) (tokens text2)) 1"
    by (simp add: calculate_text_similarity_components jaccard_overlap_code substring_ratio_code)
next
  show "\<forall>r \<in> set (fst (question_loop normalized_query limit contribs ([], {}))).
        \<exists>c \<in> set contribs.
           r = to_dict c
                 (max (calculate_text_similarity normalized_query (normalize_text (question c)))
                      (calculate_text_similarity normalized_query (normalize_text (answer c))))
           \<and> similarity_score r =
                 max (calculate_text_similarity normalized_query (normalize_text (question c)))
                     (calculate_text_similarity normalized_query (normalize_text (answer c)))"
    using question_loop_results [of normalized_query limit contribs "[]" "{}"]
    by (fastforce simp: similarity_score_to_dict)
qed

theorem calculate_text_similarity_amended_witness:
  "1 < length (py_split ''steam milk'') \<and> 1 < length (py_split ''how to steam milk'')
   \<and> sublist ''steam milk'' ''how to steam milk''
   \<and> calculate_text_similarity ''steam milk'' ''how to steam milk'' = 1 / 2
   \<and> lexical_score_spec ''steam milk'' ''how to steam milk'' = 1 / 2
   \<and> length (py_split ''milk'') \<le> 1
   \<and> calculate_text_similarity ''steam milk'' ''milk'' = 9 / 20
   \<and> jaccard_overlap (tokens ''steam milk'') (tokens ''milk'') = 1 / 2
   \<and> substring_ratio (tokens ''steam milk'') (tokens ''milk'') = 1 / 2
   \<and> fst (question_loop ''steam milk'' 5 [example_contribution] ([], {}))
       = [to_dict example_contribution (19 / 20)]
   \<and> similarity_score (to_dict example_contribution (19 / 20)) = 19 / 20
   \<and> calculate_text_similarity ''steam milk'' (normalize_text (question example_contribution))
       = 19 / 20
   \<and> calculate_text_similarity ''steam milk'' (normalize_text (answer example_contribution)) = 0"
  using calculate_text_similarity_amended [of "''steam milk''" "''how to steam milk''"
      "''steam milk''" 5 "[example_contribution]"]
    calculate_text_similarity_amended [of "''steam milk''" "''milk''"
      "''steam milk''" 5 "[example_contribution]"]
  by (simp add: similarity_examples spec_examples similarity_score_to_dict)

text \<open>
  The claim as stated fails on the texts \<open>steam milk\<close> and \<open>milk\<close>: the second is
  contained in the first, so the score of the specification includes the bonus and is
  0.5, while the code, which sees a single word, returns 0.45.
\<close>

theorem lexical_score_counterexample:
  "calculate_text_similarity ''steam milk'' ''milk'' = 9 / 20
   \<and> lexical_score_spec ''steam milk'' ''milk'' = 1 / 2
   \<and> calculate_text_similarity ''steam milk'' ''milk'' \<noteq> lexical_score_spec ''steam milk'' ''milk''"
  by (simp add: similarity_examples spec_examples)

section \<open>Properties of the candidate search\<close>

subsection \<open>Approval states of the results\<close>

text \<open>
  Every result of a loop is a stored contribution with a score. The two loops over the
  approved contributions therefore return approved contributions only; the text search
  asks for approved contributions, and for pending ones as well when the first query
  found no approved contribution.
\<close>

lemma question_loop_origin:
  "\<forall>r \<in> set (fst (question_loop normalized_query limit contribs (results, seen_ids))).
     r \<in> set results \<or> (\<exists>c \<in> set contribs. \<exists>s. r = to_dict c s)"
  using question_loop_results [of normalized_query limit contribs results seen_ids] by blast

lemma keyword_loop_origin:
  "\<forall>r \<in> set (fst (keyword_loop query_keywords limit contribs (results, seen_ids))).
     r \<in> set results \<or> (\<exists>c \<in> set contribs. \<exists>s. r = to_dict c s)"
proof (induction contribs arbitrary: results seen_ids)
  case Nil
  show ?case by simp
next
  case (Cons c contribs)
  let ?s = "real (length (filter (\<lambda>keyword. sublist keyword
               (normalize_text (question c @ '' '' @ answer c))) query_keywords))
            / real (length query_keywords)"
  show ?case
    using Cons.IH [of results seen_ids]
      Cons.IH [of "results @ [to_dict c ?s]" "insert (contrib_id c) seen_ids"]
    by (auto simp: Let_def)
qed

lemma text_loop_origin:
  "\<forall>r \<in> set (fst (text_loop contribs (results, seen_ids))).
     r \<in> set results \<or> (\<exists>c \<in> set contribs. r = to_dict c (1 / 2))"
proof (induction contribs arbitrary: results seen_ids)
  case Nil
  show ?case by simp
next
  case (Cons c contribs)
  show ?case
    using Cons.IH [of results seen_ids]
      Cons.IH [of "results @ [to_dict c (1 / 2)]" "insert (contrib_id c) seen_ids"]
    by auto
qed

lemma approved_contributions_approved:
  "c \<in> set (approved_contributions docs min_rating) \<Longrightarrow> is_approved c = ''approved''"
  by (simp add: approved_contributions_def)

lemma text_search_states:
  "text_search db query states min_rating n = Some found \<Longrightarrow> c \<in> set found \<Longrightarrow>
   is_approved c \<in> set states"
  by (auto simp: text_search_def split: option.splits dest: in_set_takeD)

lemma set_py_slice: "set (py_slice xs a b) \<subseteq> set xs"
  unfolding py_slice_def Let_def
  by (meson set_take_subset set_drop_subset subset_trans)

lemma is_approved_to_dict: "is_approved (to_dict c s) = is_approved c"
  by (simp add: to_dict_def)

lemma search_results_approval:
  assumes "r \<in> set (fst (search_similar_contributions set_order (Some db) query limit min_rating))"
  shows "is_approved r = ''approved'' \<or>
         (is_approved r = ''pending'' \<and> approved_contributions (documents db) min_rating = []
          \<and> text_index db \<noteq> None)"
proof -
  let ?all = "approved_contributions (documents db) min_rating"
  let ?ok = "\<lambda>r. is_approved r = ''approved''"
  define st1 where "st1 = question_loop (normalize_text query) limit ?all ([], {})"
  define st2 where "st2 =
    (if int (length (fst st1)) < limit \<and> extract_keywords set_order query \<noteq> []
     then keyword_loop (extract_keywords set_order query) limit ?all st1 else st1)"
  define states where "states =
    (if length ?all > 0 then [''approved''] else [''approved'', ''pending''])"
  define st3 where "st3 =
    (if int (length (fst st2)) < limit
     then (case text_search db query states min_rating (limit - int (length (fst st2))) of
             None \<Rightarrow> st2 | Some text_results \<Rightarrow> text_loop text_results st2)
     else st2)"
  have ok1: "\<forall>r \<in> set (fst st1). ?ok r"
    using question_loop_origin [of "normalize_text query" limit ?all "[]" "{}"]
    by (auto simp: st1_def is_approved_to_dict approved_contributions_approved)
  have ok2: "\<forall>r \<in> set (fst st2). ?ok r"
    using ok1 keyword_loop_origin [of "extract_keywords set_order query" limit ?all "fst st1" "snd st1"]
    by (auto simp: st2_def is_approved_to_dict approved_contributions_approved)
  have ok3: "\<forall>r \<in> set (fst st3). ?ok r \<or>
      (is_approved r = ''pending'' \<and> ?all = [] \<and> text_index db \<noteq> None)"
  proof (cases "int (length (fst st2)) < limit")
    case False
    with ok2 show ?thesis by (simp add: st3_def)
  next
    case True
    show ?thesis
    proof (cases "text_search db query states min_rating (limit - int (length (fst st2)))")
      case None
      with True ok2 show ?thesis by (simp add: st3_def)
    next
      case (Some found)
      then have idx: "text_index db \<noteq> None"
        by (auto simp: text_search_def split: option.splits)
      have "\<forall>c \<in> set found. is_approved c \<in> set states"
        using text_search_states [OF Some] by blast
      then have found: "\<forall>c \<in> set found. ?ok c \<or> (is_approved c = ''pending'' \<and> ?all = [])"
        by (auto simp: states_def split: if_splits)
      from True Some have "st3 = text_loop found (fst st2, snd st2)" by (simp add: st3_def)
      then show ?thesis
        using text_loop_origin [of found "fst st2" "snd st2"] ok2 found idx
        by (fastforce simp: is_approved_to_dict)
    qed
  qed
  have "fst (search_similar_contributions set_order (Some db) query limit min_rating) =
        py_slice (sort_key (\<lambda>x. (- similarity_score x, - rating x, - usage_count x)) (fst st3))
          0 limit"
    unfolding search_similar_contributions_def Let_def st3_def st2_def st1_def states_def
    by simp
  with assms have "r \<in> set (fst st3)" using set_py_slice by fastforce
  with ok3 show ?thesis by blast
qed

text \<open>
  Claim C2. The contribution search is claimed to return approved contributions only,
  under each of its strategies. It does not: with a store that holds one pending
  contribution and no approved one, and a text index that matches the query, the text
  search returns the pending contribution with the default score.
\<close>

theorem pending_contribution_returned:
  "fst (search_similar_contributions (\<lambda>ws. ws) (Some example_store) ''steam milk'' 5 0) =
     [to_dict pending_contribution (1 / 2)]
   \<and> is_approved (to_dict pending_contribution (1 / 2)) = ''pending''"
  by code_simp

section \<open>Properties of the vector search\<close>

subsection \<open>Normalisation\<close>

lemma sum_squares_nonneg: "0 \<le> sum_list (map (\<lambda>x. x * x) (row :: real list))"
  by (induction row) auto

lemma sum_squares_zero_iff:
  "sum_list (map (\<lambda>x. x * x) (row :: real list)) = 0 \<longleftrightarrow> (\<forall>x \<in> set row. x = 0)"
proof (induction row)
  case Nil
  show ?case by simp
next
  case (Cons a row)
  have "0 \<le> a * a" by simp
  with sum_squares_nonneg [of row]
  have "a * a + sum_list (map (\<lambda>x. x * x) row) = 0 \<longleftrightarrow>
        a * a = 0 \<and> sum_list (map (\<lambda>x. x * x) row) = 0"
    by (intro add_nonneg_eq_0_iff)
  with Cons.IH show ?case by simp
qed

lemma l2_norm_nonneg: "0 \<le> l2_norm row"
  by (simp add: l2_norm_def sum_squares_nonneg)

lemma l2_norm_zero_iff: "l2_norm row = 0 \<longleftrightarrow> (\<forall>x \<in> set row. x = 0)"
  by (simp add: l2_norm_def sum_squares_zero_iff)

lemma sum_squares_scaled:
  "sum_list (map (\<lambda>x. x * x) (map (\<lambda>x. x / n) row)) =
   sum_list (map (\<lambda>x. x * x) (row :: real list)) / (n * n)"
  by (induction row) (simp_all add: add_divide_distrib)

lemma l2_norm_scaled:
  assumes "l2_norm row \<noteq> 0"
  shows "l2_norm (map (\<lambda>x. x / l2_norm row) row) = 1"
proof -
  let ?s = "sum_list (map (\<lambda>x. x * x) row)"
  have n: "l2_norm row * l2_norm row = ?s"
    by (simp add: l2_norm_def sum_squares_nonneg)
  from assms have "?s \<noteq> 0" by (simp add: l2_norm_def)
  then have one: "?s / (l2_norm row * l2_norm row) = 1" by (simp add: n)
  have "l2_norm (map (\<lambda>x. x / l2_norm row) row) =
        sqrt (sum_list (map (\<lambda>x. x * x) (map (\<lambda>x. x / l2_norm row) row)))"
    by (rule l2_norm_def)
  also have "\<dots> = sqrt (?s / (l2_norm row * l2_norm row))"
    by (simp only: sum_squares_scaled)
  also have "\<dots> = sqrt 1" by (simp only: one)
  finally show ?thesis by simp
qed

lemma divisors_nth:
  "i < length vecs \<Longrightarrow>
   divisors vecs ! i = (if l2_norm (vecs ! i) = 0 then 1 / 10 ^ 10 else l2_norm (vecs ! i))"
  by (simp add: divisors_def Let_def)

lemma normalize_nth:
  assumes "i < length vecs"
  shows "normalize_vecs vecs ! i = map (\<lambda>x. x / (divisors vecs ! i)) (vecs ! i)"
proof (cases "sum_list (map length vecs) = 0")
  case False
  then have "normalize_vecs vecs =
      map (\<lambda>(row, norm). map (\<lambda>x. x / norm) row) (zip vecs (divisors vecs))"
    by (simp only: normalize_vecs_def if_False)
  with assms show ?thesis by (simp add: divisors_def)
next
  case True
  with assms have "vecs ! i = []" by (auto simp: sum_list_eq_0_iff)
  with True show ?thesis by (simp add: normalize_vecs_def)
qed

lemma zero_row_unchanged:
  "\<forall>x \<in> set row. x = 0 \<Longrightarrow> map (\<lambda>x. x / d) row = (row :: real list)"
  by (induction row) auto

lemma l2_norm_examples: "l2_norm [3, 4] = 5" "l2_norm [0, 0] = 0" "l2_norm [3 / 5, 4 / 5] = 1"
proof -
  have "sqrt 25 = sqrt (5\<^sup>2)" by simp
  also have "\<dots> = 5" by simp
  finally show "l2_norm [3, 4] = 5" by (simp add: l2_norm_def)
  show "l2_norm [0, 0] = 0" by (simp add: l2_norm_def)
  show "l2_norm [3 / 5, 4 / 5] = 1" by (simp add: l2_norm_def)
qed

lemma divisors_example: "divisors [[3, 4], [0, 0]] = [5, 1 / 10 ^ 10]"
  by (simp add: divisors_def l2_norm_examples)

lemma normalize_example: "normalize_vecs [[3, 4], [0, 0]] = [[3 / 5, 4 / 5], [0, 0]]"
  by (simp add: normalize_vecs_def divisors_example)

text \<open>
  Claim C9. Normalisation never divides by zero: the divisor of every row is positive.
  For a row whose norm is zero the divisor is the small constant and the row, which is
  all zero, is returned unchanged; every other row is divided by its norm, and the
  result has norm one. Floats are modelled as real numbers.
\<close>

theorem normalize_never_divides_by_zero:
  "length (normalize_vecs vecs) = length vecs
   \<and> (\<forall>i < length vecs.
        0 < divisors vecs ! i
        \<and> normalize_vecs vecs ! i = map (\<lambda>x. x / (divisors vecs ! i)) (vecs ! i)
        \<and> (if l2_norm (vecs ! i) = 0
            then divisors vecs ! i = 1 / 10 ^ 10 \<and> normalize_vecs vecs ! i = vecs ! i
            else divisors vecs ! i = l2_norm (vecs ! i)
                 \<and> l2_norm (normalize_vecs vecs ! i) = 1))"
proof (intro conjI allI impI)
  show "length (normalize_vecs vecs) = length vecs"
    by (simp add: normalize_vecs_def divisors_def)
next
  fix i assume i: "i < length vecs"
  show "0 < divisors vecs ! i"
    using l2_norm_nonneg [of "vecs ! i"] by (simp add: divisors_nth [OF i])
  show "normalize_vecs vecs ! i = map (\<lambda>x. x / (divisors vecs ! i)) (vecs ! i)"
    by (rule normalize_nth [OF i])
  show "if l2_norm (vecs ! i) = 0
        then divisors vecs ! i = 1 / 10 ^ 10 \<and> normalize_vecs vecs ! i = vecs ! i
        else divisors vecs ! i = l2_norm (vecs ! i) \<and> l2_norm (normalize_vecs vecs ! i) = 1"
  proof (cases "l2_norm (vecs ! i) = 0")
    case True
    then have "\<forall>x \<in> set (vecs ! i). x = 0" by (simp add: l2_norm_zero_iff)
    then have "normalize_vecs vecs ! i = vecs ! i"
      unfolding normalize_nth [OF i] by (rule zero_row_unchanged)
    with True show ?thesis by (simp add: divisors_nth [OF i])
  next
    case False
    then show ?thesis
      by (simp add: normalize_nth [OF i] divisors_nth [OF i] l2_norm_scaled)
  qed
qed

theorem normalize_never_divides_by_zero_witness:
  "(0::nat) < length [[3, 4], [0, 0 :: real]] \<and> (1::nat) < length [[3, 4], [0, 0 :: real]]
   \<and> l2_norm [3, 4] = 5 \<and> l2_norm [0, 0] = 0
   \<and> normalize_vecs [[3, 4], [0, 0]] = [[3 / 5, 4 / 5], [0, 0]]
   \<and> divisors [[3, 4], [0, 0]] = [5, 1 / 10 ^ 10]
   \<and> l2_norm [3 / 5, 4 / 5] = 1"
  using normalize_never_divides_by_zero [of "[[3, 4], [0, 0]]"]
  by (simp add: normalize_example divisors_example l2_norm_examples)

subsection \<open>Index ids beyond the metadata\<close>

lemma py_index_in_range:
  "- int (length xs) \<le> i \<Longrightarrow> i < int (length xs) \<Longrightarrow> \<exists>m. py_index xs i = Inr m"
  by (auto simp: py_index_def)

lemma extract_results_general:
  assumes "\<forall>(score, idx) \<in> set pairs. - int (length metadata) \<le> idx"
  shows "extract_results metadata thr pairs (cs, ss, ws) =
     (Inr (cs @ map (\<lambda>(score, idx). with_similarity (projr (py_index metadata idx)) score)
                  (hits metadata thr pairs),
           ss @ map fst (hits metadata thr pairs)),
      ws @ out_of_range metadata pairs)"
  using assms
proof (induction pairs arbitrary: cs ss ws)
  case Nil
  show ?case by (simp add: hits_def out_of_range_def)
next
  case (Cons p pairs)
  obtain score idx where p: "p = (score, idx)" by (cases p)
  from Cons.prems p have low: "- int (length metadata) \<le> idx"
    and rest: "\<forall>(score, idx) \<in> set pairs. - int (length metadata) \<le> idx" by auto
  note IH = Cons.IH [OF rest]
  show ?case
  proof (cases "idx < int (length metadata) \<and> thr \<le> score")
    case True
    with low obtain m where m: "py_index metadata idx = Inr m"
      using py_index_in_range by blast
    with True p show ?thesis by (simp add: IH hits_def out_of_range_def)
  next
    case False
    with p show ?thesis by (auto simp: IH hits_def out_of_range_def)
  qed
qed

lemma example_vector_search:
  "search_similar_chunks str_float (Inr ()) (Inr example_metadata) example_index_search
     ''steam milk'' 3 (3 / 10) =
   (\<lparr>success = True, error = None,
     chunks = [with_similarity (example_metadata ! 1) (9 / 10)], scores = [9 / 10],
     total_found = Some 1, message = None\<rparr>, [5])"
  by (simp add: search_similar_chunks_def example_index_search_def example_metadata_def
      py_index_def Let_def)

text \<open>
  What the loop does when no id lies below \<open>-len(metadata)\<close>: the search succeeds, the
  warnings are exactly the ids at or beyond the length of the metadata, reading the
  metadata at such an id would raise, and the chunks come exactly from the pairs that
  pass the test \<open>idx < len(metadata) and score >= similarity_threshold\<close>.
\<close>

lemma ids_beyond_length_discarded:
  assumes "load_index = Inr index" and "load_metadata = Inr metadata" and "metadata \<noteq> []"
    and "index_search index query k = Inr pairs"
    and "\<forall>(score, idx) \<in> set pairs. - int (length metadata) \<le> idx"
  shows "let R = search_similar_chunks str_float load_index load_metadata index_search query k
                   similarity_threshold
         in success (fst R)
          \<and> chunks (fst R) =
              map (\<lambda>(score, idx). with_similarity (projr (py_index metadata idx)) score)
                (filter (\<lambda>(score, idx). idx < int (length metadata) \<and> score \<ge> similarity_threshold)
                   pairs)
          \<and> snd R = map snd (filter (\<lambda>(score, idx). idx \<ge> int (length metadata)) pairs)
          \<and> (\<forall>(score, idx) \<in> set pairs.
                if idx \<ge> int (length metadata)
                then idx \<in> set (snd R) \<and> py_index metadata idx = Inl (Exn ''list index out of range'')
                else \<exists>m. py_index metadata idx = Inr m)"
proof -
  let ?R = "search_similar_chunks str_float load_index load_metadata index_search query k
              similarity_threshold"
  have run: "success (fst ?R)
      \<and> chunks (fst ?R) =
          map (\<lambda>(score, idx). with_similarity (projr (py_index metadata idx)) score)
            (filter (\<lambda>(score, idx). idx < int (length metadata) \<and> score \<ge> similarity_threshold)
               pairs)
      \<and> snd ?R = map snd (filter (\<lambda>(score, idx). idx \<ge> int (length metadata)) pairs)"
    using assms(1-4) extract_results_general [OF assms(5), of similarity_threshold "[]" "[]" "[]"]
    by (simp add: search_similar_chunks_def Let_def hits_def out_of_range_def)
  then have warned: "snd ?R = map snd (filter (\<lambda>(score, idx). idx \<ge> int (length metadata)) pairs)"
    by blast
  have guard: "\<forall>(score, idx) \<in> set pairs.
          if idx \<ge> int (length metadata)
          then idx \<in> set (snd ?R) \<and> py_index metadata idx = Inl (Exn ''list index out of range'')
          else \<exists>m. py_index metadata idx = Inr m"
    unfolding warned using assms(5) by (force simp: py_index_def)
  show ?thesis unfolding Let_def using run guard by blast
qed

text \<open>
  An id below \<open>-len(metadata)\<close> that passes the test raises \<open>IndexError\<close> and ends the
  search; an id beyond the metadata that comes after it is never looked at, and no
  warning is logged for it.
\<close>

lemma stray_id_aborts_search:
  "search_similar_chunks str_float (Inr ()) (Inr example_metadata) example_stray_search
     ''steam milk'' 2 (3 / 10) =
   (failed_search ''Search error: list index out of range'', [])"
  by (simp add: search_similar_chunks_def example_stray_search_def example_metadata_def
      py_index_def Let_def)

text \<open>
  Claim C8. In the vector search, every returned id at or beyond the length of the
  metadata is claimed to be discarded with a warning, and only ids within bounds, with a
  score at or above the threshold, are claimed to contribute chunks. The test of the
  loop has no lower bound: the filler id \<open>-1\<close> is not a position of the metadata, yet
  with a threshold below its score it passes the test, \<open>metadata[-1]\<close> reads the last
  entry, and that entry is returned as a chunk without any warning.
\<close>

theorem filler_id_reads_metadata:
  "(- 1 :: int) < 0
   \<and> success (fst (search_similar_chunks str_float (Inr ()) (Inr example_metadata)
         example_filler_search ''steam milk'' 3 (- (10 ^ 39))))
   \<and> chunks (fst (search_similar_chunks str_float (Inr ()) (Inr example_metadata)
         example_filler_search ''steam milk'' 3 (- (10 ^ 39)))) =
       [with_similarity (example_metadata ! 1) (9 / 10),
        with_similarity (example_metadata ! 0) (1 / 2),
        with_similarity (example_metadata ! 1) (- 340282346638528859811704183484516925440)]
   \<and> snd (search_similar_chunks str_float (Inr ()) (Inr example_metadata)
         example_filler_search ''steam milk'' 3 (- (10 ^ 39))) = []"
  by (simp add: search_similar_chunks_def example_filler_search_def example_metadata_def
      py_index_def Let_def)

section \<open>Properties of the quality scores\<close>

lemma example_result_sel:
  "similarity_score (example_result r s) = s" "rating (example_result r s) = r"
  by (simp_all add: example_result_def)

lemma quality_example_capped: "assess_mongodb_quality [example_result (9 / 2) (7 / 10)] q = 1"
  by (simp add: assess_mongodb_quality_def example_result_def Let_def)

lemma quality_examples:
  "assess_mongodb_quality [example_result (9 / 2) (1 / 10)] q = 57 / 100"
  "assess_mongodb_quality [example_result 2 (1 / 10)] q = 42 / 100"
  by (simp_all add: assess_mongodb_quality_def example_result_def Let_def)

text \<open>
  Claim C4. For every result set, the contribution quality score equals
  \<open>min (avg similarity + (avg rating / 5) * 0.3 + min (count / 3) 0.2) 1\<close>, and for the
  empty result set it equals zero. The score of the code is compared with the score as
  the specification words it.
\<close>

theorem assess_mongodb_quality_formula:
  "assess_mongodb_quality results query = contribution_quality_spec results
   \<and> assess_mongodb_quality [] query = 0"
  by (simp add: assess_mongodb_quality_def contribution_quality_spec_def avg_def Let_def
      mult.commute)

text \<open>
  Claim C5. For two non-empty result sets with the same similarity scores and the same
  count, if the average rating of the first is greater than that of the second, then
  the contribution quality score of the first is at least that of the second.
\<close>

theorem assess_mongodb_quality_mono:
  assumes "results1 \<noteq> []" and "results2 \<noteq> []"
    and "map similarity_score results1 = map similarity_score results2"
    and "length results1 = length results2"
    and "avg (map rating results1) > avg (map rating results2)"
  shows "assess_mongodb_quality results1 query \<ge> assess_mongodb_quality results2 query"
proof -
  let ?s = "avg (map similarity_score results2)"
  let ?c = "min (real (length results2) / 3) 0.2"
  have q1: "assess_mongodb_quality results1 query =
      min (?s + (avg (map rating results1) / 5) * 0.3 + ?c) 1"
    using assms(1,3,4) by (simp add: assess_mongodb_quality_def avg_def Let_def mult.commute)
  have q2: "assess_mongodb_quality results2 query =
      min (?s + (avg (map rating results2) / 5) * 0.3 + ?c) 1"
    using assms(2) by (simp add: assess_mongodb_quality_def avg_def Let_def mult.commute)
  from assms(5) have "(avg (map rating results2) / 5) * 0.3 \<le> (avg (map rating results1) / 5) * 0.3"
    by simp
  then show ?thesis unfolding q1 q2 by (intro min.mono) simp_all
qed

theorem assess_mongodb_quality_mono_witness:
  "[example_result (9 / 2) (1 / 10)] \<noteq> [] \<and> [example_result 2 (1 / 10)] \<noteq> []
   \<and> map similarity_score [example_result (9 / 2) (1 / 10)] = map similarity_score [example_result 2 (1 / 10)]
   \<and> avg (map rating [example_result (9 / 2) (1 / 10)]) > avg (map rating [example_result 2 (1 / 10)])
   \<and> assess_mongodb_quality [example_result (9 / 2) (1 / 10)] ''milk'' = 57 / 100
   \<and> assess_mongodb_quality [example_result 2 (1 / 10)] ''milk'' = 42 / 100
   \<and> assess_mongodb_quality [example_result (9 / 2) (1 / 10)] ''milk'' \<ge> assess_mongodb_quality [example_result 2 (1 / 10)] ''milk''"
  using assess_mongodb_quality_mono [of "[example_result (9 / 2) (1 / 10)]" "[example_result 2 (1 / 10)]" "''milk''"]
  by (simp add: quality_examples example_result_sel avg_def)

section \<open>Properties of the blender and of the entry point\<close>

lemma standard_not_emphasized:
  "\<not> emphasized (create_combined_context str_float fmt_2f faiss_chunks contributions)"
  by (simp add: create_combined_context_def emphasized_def Let_def)

lemma prioritized_emphasized:
  "contributions \<noteq> [] \<Longrightarrow>
   emphasized (create_prioritized_context str_float fmt_2f contributions faiss_chunks True)"
  by (simp add: create_prioritized_context_def emphasized_def Let_def)

lemma response_fields:
  assumes "chunk_search query k threshold = Inr fr"
  shows "faiss_results (enhanced_search_with_contributions str_float fmt_2f chunk_search
           contribution_search query k threshold include_contributions limit) =
         (if success fr then chunks fr else [])"
    and "contribution_results (enhanced_search_with_contributions str_float fmt_2f chunk_search
           contribution_search query k threshold include_contributions limit) =
         (if include_contributions
          then (case contribution_search query limit 0 of Inl e \<Rightarrow> [] | Inr rs \<Rightarrow> rs) else [])"
    and "success (enhanced_search_with_contributions str_float fmt_2f chunk_search
           contribution_search query k threshold include_contributions limit)"
  using assms by (simp_all add: enhanced_search_with_contributions_def Let_def)

lemma example_qualities:
  "assess_faiss_quality [example_chunk (4 / 5), example_chunk (3 / 5)] q = 9 / 10"
  "assess_faiss_quality [] q = 0"
  "assess_mongodb_quality [] q = 0"
  by (simp_all add: assess_faiss_quality_def assess_mongodb_quality_def example_chunk_def Let_def)

lemma example_searches:
  "example_chunk_search ''how to steam milk'' None None = Inr example_faiss_result"
  "example_contribution_search ''how to steam milk'' 5 0 = Inr [example_result (9 / 2) (7 / 10)]"
  "example_contribution_search ''how to steam milk'' 0 0 = Inl (Exn ''store unreachable'')"
  "example_chunk_search [] None None = Inl (Exn ''empty query'')"
  "success example_faiss_result"
  "chunks example_faiss_result = [example_chunk (4 / 5), example_chunk (3 / 5)]"
  by (simp_all add: example_chunk_search_def example_contribution_search_def example_faiss_result_def)

text \<open>
  Claim C1. When the vector search returns, the composed context is the emphasized
  rendering if and only if the contribution quality score is strictly greater than the
  vector quality score and the contribution result set is not empty; in every other
  case it is the standard rendering. The flag \<open>prioritized_mongodb\<close> of the metadata
  reports the same condition.
\<close>

theorem blender_mode:
  assumes "chunk_search query k threshold = Inr fr"
  shows "let R = enhanced_search_with_contributions str_float fmt_2f chunk_search
                   contribution_search query k threshold include_contributions limit;
             contribution_quality = assess_mongodb_quality (contribution_results R) query;
             vector_quality = assess_faiss_quality (faiss_results R) query
         in (emphasized (combined_context R) \<longleftrightarrow>
               contribution_quality > vector_quality \<and> contribution_results R \<noteq> [])
          \<and> (if contribution_quality > vector_quality \<and> contribution_results R \<noteq> []
              then combined_context R =
                     create_prioritized_context str_float fmt_2f
                       (contribution_results R) (faiss_results R) True
              else combined_context R =
                     create_combined_context str_float fmt_2f
                       (faiss_results R) (contribution_results R))
          \<and> (map_option prioritized_mongodb (details (search_metadata R)) =
               Some (contribution_quality > vector_quality \<and> contribution_results R \<noteq> []))"
  using assms
  by (simp add: enhanced_search_with_contributions_def Let_def standard_not_emphasized
      prioritized_emphasized)

theorem blender_mode_witness:
  "example_chunk_search ''how to steam milk'' None None = Inr example_faiss_result
   \<and> assess_faiss_quality (chunks example_faiss_result) ''how to steam milk'' = 9 / 10
   \<and> assess_mongodb_quality [example_result (9 / 2) (7 / 10)] ''how to steam milk'' = 1
   \<and> emphasized (combined_context
        (enhanced_search_with_contributions (\<lambda>x. ''4.5'') (\<lambda>x. ''0.70'') example_chunk_search
           example_contribution_search ''how to steam milk'' None None True 5))
   \<and> \<not> emphasized (combined_context
        (enhanced_search_with_contributions (\<lambda>x. ''4.5'') (\<lambda>x. ''0.70'') example_chunk_search
           example_contribution_search ''how to steam milk'' None None False 5))"
  using blender_mode [of example_chunk_search "''how to steam milk''" None None
      example_faiss_result "\<lambda>x. ''4.5''" "\<lambda>x. ''0.70''" example_contribution_search True 5]
    blender_mode [of example_chunk_search "''how to steam milk''" None None
      example_faiss_result "\<lambda>x. ''4.5''" "\<lambda>x. ''0.70''" example_contribution_search False 5]
  by (simp add: Let_def response_fields example_searches example_qualities quality_example_capped
      standard_not_emphasized prioritized_emphasized)

text \<open>
  Claim C10. The entry point never propagates an exception. If the vector search
  raises, the response has \<open>success = False\<close>, the message of the exception as its
  error, no vector results, no contribution results and the empty string as combined
  context. If the contribution search alone raises, the contribution list is empty and
  the response still has \<open>success = True\<close>. The contribution search itself answers a
  store that cannot be reached with the empty list.
\<close>

theorem enhanced_search_never_raises:
  "(chunk_search query k threshold = Inl e \<longrightarrow>
      (let R = enhanced_search_with_contributions str_float fmt_2f chunk_search
                 contribution_search query k threshold include_contributions limit
       in \<not> success R \<and> error R = Some (exn_message e) \<and> faiss_results R = []
          \<and> contribution_results R = [] \<and> combined_context R = []))
   \<and> (chunk_search query k threshold = Inr fr \<and> include_contributions
        \<and> contribution_search query limit 0 = Inl e' \<longrightarrow>
      (let R = enhanced_search_with_contributions str_float fmt_2f chunk_search
                 contribution_search query k threshold include_contributions limit
       in success R \<and> error R = None \<and> contribution_results R = []))
   \<and> fst (search_similar_contributions set_order None query limit min_rating) = []"
  by (simp add: enhanced_search_with_contributions_def failure_response_def
      search_similar_contributions_def Let_def)

theorem enhanced_search_never_raises_witness:
  "example_chunk_search [] None None = Inl (Exn ''empty query'')
   \<and> \<not> success (enhanced_search_with_contributions (\<lambda>x. ''4.5'') (\<lambda>x. ''0.70'')
        example_chunk_search example_contribution_search [] None None True 5)
   \<and> error (enhanced_search_with_contributions (\<lambda>x. ''4.5'') (\<lambda>x. ''0.70'')
        example_chunk_search example_contribution_search [] None None True 5) = Some ''empty query''
   \<and> example_chunk_search ''how to steam milk'' None None = Inr example_faiss_result
   \<and> example_contribution_search ''how to steam milk'' 0 0 = Inl (Exn ''store unreachable'')
   \<and> success (enhanced_search_with_contributions (\<lambda>x. ''4.5'') (\<lambda>x. ''0.70'')
        example_chunk_search example_contribution_search ''how to steam milk'' None None True 0)
   \<and> contribution_results (enhanced_search_with_contributions (\<lambda>x. ''4.5'') (\<lambda>x. ''0.70'')
        example_chunk_search example_contribution_search ''how to steam milk'' None None True 0) = []"
  using enhanced_search_never_raises [of example_chunk_search "[]" None None "Exn ''empty query''"
      "\<lambda>x. ''4.5''" "\<lambda>x. ''0.70''" example_contribution_search True 5]
    enhanced_search_never_raises [of example_chunk_search "''how to steam milk''" None None
      "Exn ''empty query''" "\<lambda>x. ''4.5''" "\<lambda>x. ''0.70''" example_contribution_search True 0
      example_faiss_result "Exn ''store unreachable''"]
  by (simp add: Let_def example_searches)

end
